theory Spec2Isabelle
  imports Complex_Main
begin

section \<open>Data model\<close>

text \<open>
  The service keeps its data in document collections. The handlers are modelled as
  functions from the state of the collections to the new state and the reply. Fields
  of a user, a timeline entry and a payment have the types the server writes them at:
  e-mail addresses are strings, flags are booleans, timestamps are milliseconds. The
  fields of an issue that creation takes from the request body and defaults with
  \<open>||\<close> (status, priority, upvotes, upvoters) and its free-form fields hold the
  JSON value that was sent, whatever its type; its reporter, assignee, flags and
  timestamps are read at the types the server writes them at. A field that may be absent from a document is an
  \<open>option\<close>; a flag the code only tests for truthiness is a \<open>bool\<close> (absent
  reads as \<open>False\<close>). One request reads one clock value \<open>now\<close> for each
  \<open>new Date()\<close>. The requests of the model are handled one after the other.
\<close>

subsection \<open>JSON values\<close>

text \<open>
  A value as \<open>JSON.parse\<close> hands it to a handler and as the store returns it. A
  finite number is given by its value; \<open>JInf\<close> is the infinity of a sign
  (\<open>True\<close> for the positive one), which a literal beyond the range of a double
  parses to.
\<close>

datatype jsval =
    JNull
  | JBool bool
  | JNum rat
  | JInf bool
  | JStr string
  | JArr "jsval list"
  | JObj "(string \<times> jsval) list"

record user =
  email :: string
  name :: string
  imageUrl :: string
  role :: string
  premium :: bool
  isBlocked :: bool
  hasPassword :: bool
  createdAt :: nat

record issue =
  iid :: string
  reporterEmail :: string
  userEmail :: string
  title :: "jsval option"
  description :: "jsval option"
  location :: "jsval option"
  category :: "jsval option"
  status :: jsval
  priority :: jsval
  reportedAt :: nat
  upvotes :: jsval
  upvoters :: jsval
  isHidden :: bool
  isBoosted :: bool
  assignedStaff :: "string option"
  assignedAt :: "nat option"

text \<open>A timeline entry: \<open>issueId\<close>, \<open>status\<close>, \<open>message\<close>, \<open>updatedBy\<close>, \<open>time\<close>.\<close>

record entry =
  t_issueId :: string
  t_status :: jsval
  t_message :: string
  t_updatedBy :: string
  t_time :: nat

text \<open>A boost payment: \<open>issueId\<close>, \<open>userEmail\<close>, \<open>paymentId\<close>, \<open>amount\<close>, \<open>purpose\<close>, \<open>date\<close>.\<close>

record payment =
  p_issueId :: string
  p_userEmail :: string
  p_paymentId :: string
  p_amount :: int
  p_purpose :: string
  p_date :: nat

record state =
  users :: "user list"
  issues :: "issue list"
  timeline :: "entry list"
  payments :: "payment list"

text \<open>
  The body of \<open>POST /issues\<close> and of \<open>PATCH /issues/edit/:id\<close> is stored as it
  comes: every field of an issue may be present in it. The defaulted and the free-form
  fields and the two flags are any JSON value; the reporter, the assignee and the
  timestamps, which the handlers compare with strings or overwrite, are taken at the
  types the server writes them at. The key \<open>_id\<close> belongs to the store and is not
  part of a modelled body.
\<close>

record issue_body =
  b_reporterEmail :: "string option"
  b_userEmail :: "string option"
  b_title :: "jsval option"
  b_description :: "jsval option"
  b_location :: "jsval option"
  b_category :: "jsval option"
  b_status :: "jsval option"
  b_priority :: "jsval option"
  b_reportedAt :: "nat option"
  b_upvotes :: "jsval option"
  b_upvoters :: "jsval option"
  b_isHidden :: "jsval option"
  b_isBoosted :: "jsval option"
  b_assignedStaff :: "string option"
  b_assignedAt :: "nat option"

subsection \<open>Replies\<close>

text \<open>
  An exception inside a handler is caught and answered with status 500 and the
  exception's message; the reply keeps which exception it was
  (\<open>MongoServerError\<close>: the store refuses an update). \<open>StatusMessage cur
  allowed\<close> is the message of the invalid-transition reply for a current status
  \<open>cur\<close> that is not a string, kept as the two values its template converts.
\<close>

datatype exn = BSONError | TypeError string | MongoServerError

datatype payload =
    Message string
  | StatusMessage jsval "string list"
  | Err exn
  | RoleOf string
  | Inserted string
  | Modified nat
  | Deleted nat

type_synonym reply = "nat \<times> payload"

subsection \<open>The identity provider's answer and \<open>req.user\<close>\<close>

record decoded =
  d_email :: string
  d_uid :: string
  d_name :: "string option"
  d_picture :: "string option"

text \<open>
  \<open>NoHeader\<close>: no \<open>Authorization: Bearer\<close> header. \<open>BadToken\<close>: the identity
  provider rejects the token. \<open>Verified d\<close>: it accepts the token and decodes it to
  \<open>d\<close>.
\<close>

datatype credential = NoHeader | BadToken | Verified decoded

record authed =
  a_email :: string
  a_uid :: string
  a_role :: string
  a_isBlocked :: bool
  a_isPremium :: bool

section \<open>JavaScript values\<close>

text \<open>\<open>v || d\<close> for an optional string \<open>v\<close>: the empty string is falsy.\<close>

definition orS :: "string option \<Rightarrow> string \<Rightarrow> string" where
  "orS v d = (case v of None \<Rightarrow> d | Some s \<Rightarrow> if s = [] then d else s)"

text \<open>\<open>xs.join(', ')\<close>\<close>

fun join :: "string list \<Rightarrow> string" where
  "join [] = []"
| "join [x] = x"
| "join (x # y # ys) = x @ '', '' @ join (y # ys)"

text \<open>
  Truthiness of a JSON value: \<open>null\<close>, \<open>false\<close>, 0 and the empty string are
  falsy, everything else (every array and object too) is truthy.
\<close>

fun truthy :: "jsval \<Rightarrow> bool" where
  "truthy JNull = False"
| "truthy (JBool b) = b"
| "truthy (JNum q) = (q \<noteq> 0)"
| "truthy (JInf b) = True"
| "truthy (JStr s) = (s \<noteq> [])"
| "truthy (JArr vs) = True"
| "truthy (JObj kvs) = True"

text \<open>\<open>v || d\<close> for a field \<open>v\<close> of a body, absent or any JSON value.\<close>

definition orJ :: "jsval option \<Rightarrow> jsval \<Rightarrow> jsval" where
  "orJ v d = (case v of None \<Rightarrow> d | Some w \<Rightarrow> if truthy w then w else d)"

text \<open>\<open>s.includes(e)\<close> on strings: \<open>e\<close> occurs in \<open>s\<close>.\<close>

fun includesStr :: "string \<Rightarrow> string \<Rightarrow> bool" where
  "includesStr [] e = (e = [])"
| "includesStr (c # cs) e = (take (length e) (c # cs) = e \<or> includesStr cs e)"

text \<open>
  \<open>v?.includes(e)\<close> for a string \<open>e\<close>: \<open>null\<close> short-circuits to a falsy
  \<open>undefined\<close>; an array is searched for the string \<open>e\<close>; a string for the
  substring \<open>e\<close>; a number, a boolean or an object has no function
  \<open>includes\<close>, and the call throws.
\<close>

fun includesJS :: "jsval \<Rightarrow> string \<Rightarrow> exn + bool" where
  "includesJS JNull e = Inr False"
| "includesJS (JArr vs) e = Inr (JStr e \<in> set vs)"
| "includesJS (JStr s) e = Inr (includesStr s e)"
| "includesJS v e = Inl (TypeError ''issue.upvoters?.includes is not a function'')"

subsection \<open>Property keys\<close>

text \<open>
  \<open>obj[v]\<close> converts \<open>v\<close> to a string. The conversion of an object throws
  when the object has a property \<open>toString\<close> of its own (a JSON value, which is
  not a function); an array converts the elements it joins, \<open>null\<close> to the empty
  string.
\<close>

fun throwsToString :: "jsval \<Rightarrow> bool" where
  "throwsToString (JObj kvs) = (''toString'' \<in> set (map fst kvs))"
| "throwsToString (JArr vs) = list_ex throwsToString vs"
| "throwsToString v = False"

text \<open>
  The key a value converts to, as far as a lookup in \<open>VALID_STATUS_FLOW\<close> needs
  it: \<open>Throws\<close>, the conversion throws; \<open>Key k\<close>, the key is \<open>k\<close>;
  \<open>OtherKey\<close>, the key is a string that names no property of that object, own or
  inherited (the digits of a number, \<open>true\<close>, \<open>false\<close>, \<open>null\<close>,
  \<open>[object Object]\<close>, or the join of two or more elements, which has a comma).
\<close>

datatype key = Throws | Key string | OtherKey

fun keyOf :: "jsval \<Rightarrow> key" where
  "keyOf (JStr s) = Key s"
| "keyOf (JArr []) = Key []"
| "keyOf (JArr [v]) = (if v = JNull then Key [] else keyOf v)"
| "keyOf (JArr (v # w # vs)) = (if list_ex throwsToString (v # w # vs) then Throws else OtherKey)"
| "keyOf (JObj kvs) = (if ''toString'' \<in> set (map fst kvs) then Throws else OtherKey)"
| "keyOf v = OtherKey"

subsection \<open>Numbers\<close>

text \<open>
  A number of a request body is a double. The driver writes it as a 32-bit integer when
  it is one and as a double otherwise, and the store's \<open>$inc\<close> by 1 adds exactly
  on an integer and in doubles on a double: there the sum is rounded to 53 significant
  bits, ties to even. The two agree on the integers below \<open>2^53\<close>, so one
  rounded sum describes both. \<open>bits n\<close> is the length of \<open>n\<close> in binary,
  \<open>binade q\<close> the exponent \<open>e\<close> with \<open>2^e \<le> |q| < 2^(e+1)\<close>.
\<close>

fun bits :: "nat \<Rightarrow> nat" where
  "bits n = (if n = 0 then 0 else Suc (bits (n div 2)))"

declare bits.simps [simp del]

definition pow2 :: "int \<Rightarrow> rat" where
  "pow2 e = (if 0 \<le> e then 2 ^ nat e else 1 / 2 ^ nat (- e))"

definition binade :: "rat \<Rightarrow> int" where
  "binade q =
     (let (a, b) = quotient_of \<bar>q\<bar>;
          e0 = int (bits (nat a)) - int (bits (nat b))
      in if pow2 e0 \<le> \<bar>q\<bar> then e0 else e0 - 1)"

definition roundEven :: "rat \<Rightarrow> int" where
  "roundEven x =
     (let f = \<lfloor>x\<rfloor>; d = x - of_int f
      in if d < 1 / 2 then f else if 1 / 2 < d then f + 1 else if even f then f else f + 1)"


text \<open>
  The double nearest to \<open>q\<close>: \<open>q\<close> is scaled so that its leading bit is bit
  52, rounded to an integer, and scaled back.
\<close>

definition toDouble :: "rat \<Rightarrow> rat" where
  "toDouble q =
     (if q = 0 then 0
      else (let u = pow2 (binade q - 52) in of_int (roundEven (q / u)) * u))"

text \<open>
  \<open>$inc: { f: 1 }\<close> on a field that holds \<open>v\<close>: the sum for a number (an
  infinity stays), and the store refuses a field that is not a number.
\<close>

fun incNumber :: "jsval \<Rightarrow> jsval option" where
  "incNumber (JNum q) = Some (JNum (toDouble (q + 1)))"
| "incNumber (JInf b) = Some (JInf b)"
| "incNumber v = None"

text \<open>
  \<open>$push: { f: w }\<close> on a field that holds \<open>v\<close>: the store appends to an
  array and refuses anything else.
\<close>

fun pushValue :: "jsval \<Rightarrow> jsval \<Rightarrow> jsval option" where
  "pushValue (JArr vs) w = Some (JArr (vs @ [w]))"
| "pushValue v w = None"

section \<open>The document store\<close>

text \<open>
  \<open>new ObjectId(id)\<close> throws unless \<open>id\<close> is a string of 24 hexadecimal
  digits; \<open>ObjectId.isValid\<close> is the same test. Ids are compared as strings: the
  ids the driver generates are written in lower case, and a request that writes the
  id of a document with other letters is outside the model (it finds nothing here).
  Every collection gives its documents an \<open>_id\<close>; only the issues are looked up
  by it, so only they carry it.
\<close>

definition hexDigit :: "char \<Rightarrow> bool" where
  "hexDigit c = (c \<in> set ''0123456789abcdefABCDEF'')"

definition isValidObjectId :: "string \<Rightarrow> bool" where
  "isValidObjectId s = (length s = 24 \<and> list_all hexDigit s)"

text \<open>\<open>usersCollection.findOne({ email })\<close>\<close>

definition findUser :: "string \<Rightarrow> user list \<Rightarrow> user option" where
  "findUser e us = find (\<lambda>u. email u = e) us"

text \<open>\<open>usersCollection.findOne({ email, role: "staff" })\<close>\<close>

definition findStaff :: "string \<Rightarrow> user list \<Rightarrow> user option" where
  "findStaff e us = find (\<lambda>u. email u = e \<and> role u = ''staff'') us"

text \<open>\<open>issuesCollection.findOne({ _id })\<close>\<close>

definition findIssue :: "string \<Rightarrow> issue list \<Rightarrow> issue option" where
  "findIssue i xs = find (\<lambda>x. iid x = i) xs"

text \<open>\<open>updateOne({ _id }, ...)\<close> changes the first document with the id.\<close>

fun updateOne :: "string \<Rightarrow> (issue \<Rightarrow> issue) \<Rightarrow> issue list \<Rightarrow> issue list" where
  "updateOne i f [] = []"
| "updateOne i f (x # xs) = (if iid x = i then f x # xs else x # updateOne i f xs)"

text \<open>\<open>deleteOne({ _id })\<close> removes the first document with the id.\<close>

fun deleteOne :: "string \<Rightarrow> issue list \<Rightarrow> issue list" where
  "deleteOne i [] = []"
| "deleteOne i (x # xs) = (if iid x = i then xs else x # deleteOne i xs)"

text \<open>\<open>usersCollection.updateOne({ email }, { $set: ... })\<close>\<close>

fun updateUser :: "string \<Rightarrow> (user \<Rightarrow> user) \<Rightarrow> user list \<Rightarrow> user list" where
  "updateUser e f [] = []"
| "updateUser e f (u # us) = (if email u = e then f u # us else u # updateUser e f us)"

text \<open>\<open>modifiedCount\<close> of an update of the document \<open>x\<close> by \<open>f\<close>.\<close>

definition modifiedCount :: "('a \<Rightarrow> 'a) \<Rightarrow> 'a option \<Rightarrow> nat" where
  "modifiedCount f x = (case x of None \<Rightarrow> 0 | Some d \<Rightarrow> if f d = d then 0 else 1)"

text \<open>\<open>issuesCollection.countDocuments({ reporterEmail })\<close>\<close>

definition countDocuments :: "string \<Rightarrow> issue list \<Rightarrow> nat" where
  "countDocuments e xs = length (filter (\<lambda>x. reporterEmail x = e) xs)"

section \<open>Middleware\<close>

text \<open>
  \<open>verifyToken\<close>: 401 without a verified token; otherwise the user record of the
  verified e-mail is read, provisioned as a citizen when there is none, and
  \<open>req.user\<close> is filled from it. \<open>Inl\<close> is the reply that ends the request.
\<close>

definition verifyToken :: "nat \<Rightarrow> credential \<Rightarrow> state \<Rightarrow> reply + (authed \<times> state)" where
  "verifyToken now cred st =
     (case cred of
        NoHeader \<Rightarrow> Inl (401, Message ''Unauthorized'')
      | BadToken \<Rightarrow> Inl (401, Message ''Invalid token'')
      | Verified d \<Rightarrow>
          (case findUser (d_email d) (users st) of
             Some dbUser \<Rightarrow>
               Inr (\<lparr>a_email = d_email d, a_uid = d_uid d, a_role = role dbUser,
                      a_isBlocked = isBlocked dbUser, a_isPremium = premium dbUser\<rparr>, st)
           | None \<Rightarrow>
               (let newUser = \<lparr>email = d_email d, name = orS (d_name d) [],
                                imageUrl = orS (d_picture d) [], role = ''citizen'',
                                premium = False, isBlocked = False, hasPassword = False,
                                createdAt = now\<rparr>
                in Inr (\<lparr>a_email = d_email d, a_uid = d_uid d, a_role = role newUser,
                          a_isBlocked = isBlocked newUser, a_isPremium = premium newUser\<rparr>,
                        st\<lparr>users := users st @ [newUser]\<rparr>))))"

definition requireRole :: "string \<Rightarrow> authed \<Rightarrow> reply option" where
  "requireRole r ru =
     (if a_role ru \<noteq> r then Some (403, Message (''Forbidden - Role required: '' @ r)) else None)"

definition checkBlocked :: "authed \<Rightarrow> reply option" where
  "checkBlocked ru = (if a_isBlocked ru then Some (403, Message ''Your account is blocked'') else None)"

text \<open>The guards of a route run in order; the first that replies ends the request.\<close>

fun guards :: "(authed \<Rightarrow> reply option) list \<Rightarrow> authed \<Rightarrow> reply option" where
  "guards [] ru = None"
| "guards (g # gs) ru = (case g ru of Some r \<Rightarrow> Some r | None \<Rightarrow> guards gs ru)"

text \<open>
  A route \<open>app.METHOD(path, verifyToken, g1, ..., handler)\<close>. A user record that
  \<open>verifyToken\<close> provisions stays when a later guard or the handler rejects.
\<close>

definition route ::
  "nat \<Rightarrow> credential \<Rightarrow> (authed \<Rightarrow> reply option) list \<Rightarrow> (authed \<Rightarrow> state \<Rightarrow> state \<times> reply)
     \<Rightarrow> state \<Rightarrow> state \<times> reply" where
  "route now cred gs h st =
     (case verifyToken now cred st of
        Inl r \<Rightarrow> (st, r)
      | Inr (ru, st1) \<Rightarrow>
          (case guards gs ru of Some r \<Rightarrow> (st1, r) | None \<Rightarrow> h ru st1))"

section \<open>Status transitions\<close>

text \<open>Allowed status transitions (staff must follow; admin may bypass).\<close>

definition VALID_STATUS_FLOW :: "(string \<times> string list) list" where
  "VALID_STATUS_FLOW =
     [(''pending'', [''in-progress'']),
      (''in-progress'', [''resolved'']),
      (''resolved'', [''closed''])]"

text \<open>
  \<open>VALID_STATUS_FLOW\<close> is an object literal, so a key it does not own is looked up
  in \<open>Object.prototype\<close>. These are the property names every object inherits; each
  holds a function (or, for \<open>__proto__\<close>, an object), none of them an array.
\<close>

definition objectPrototypeKeys :: "string list" where
  "objectPrototypeKeys =
     [''constructor'', ''__defineGetter__'', ''__defineSetter__'', ''hasOwnProperty'',
      ''__lookupGetter__'', ''__lookupSetter__'', ''isPrototypeOf'',
      ''propertyIsEnumerable'', ''toString'', ''valueOf'', ''__proto__'',
      ''toLocaleString'']"

text \<open>
  \<open>VALID_STATUS_FLOW[k] || []\<close> for a string key \<open>k\<close>: \<open>Some\<close> the array of
  allowed next states, or \<open>None\<close> when the lookup yields an inherited property,
  which is truthy and has no \<open>includes\<close>.
\<close>

definition allowedFrom :: "string \<Rightarrow> string list option" where
  "allowedFrom k =
     (case map_of VALID_STATUS_FLOW k of
        Some a \<Rightarrow> Some a
      | None \<Rightarrow> if k \<in> set objectPrototypeKeys then None else Some [])"

text \<open>
  \<open>VALID_STATUS_FLOW[issue.status] || []\<close> for the stored status, any JSON value:
  \<open>Inl\<close> the exception of a conversion that throws.
\<close>

definition allowedFromStatus :: "jsval \<Rightarrow> exn + string list option" where
  "allowedFromStatus v =
     (case keyOf v of
        Throws \<Rightarrow> Inl (TypeError ''Cannot convert object to primitive value'')
      | Key k \<Rightarrow> Inr (allowedFrom k)
      | OtherKey \<Rightarrow> Inr (Some []))"

definition arrow :: string where
  "arrow = [CHR 0xE2, CHR 0x86, CHR 0x92]"

text \<open>
  The invalid-transition reply, with the message
  \<open>Invalid status update. Allowed: ${issue.status} -> ${allowed.join(', ') || 'none'}\<close>
  (the arrow is one character in the source).
\<close>

definition invalidTransition :: "jsval \<Rightarrow> string list \<Rightarrow> reply" where
  "invalidTransition cur allowed =
     (case cur of
        JStr c \<Rightarrow>
          (400, Message (''Invalid status update. Allowed: '' @ c @ '' '' @ arrow @ '' '' @
                         (if join allowed = [] then ''none'' else join allowed)))
      | _ \<Rightarrow> (400, StatusMessage cur allowed))"

text \<open>
  The flow check of a staff caller: \<open>None\<close> lets the update through,
  \<open>allowed.includes(status)\<close> on something that is not an array throws.
\<close>

definition validateFlow :: "issue \<Rightarrow> string \<Rightarrow> reply option" where
  "validateFlow x s =
     (case allowedFromStatus (status x) of
        Inl e \<Rightarrow> Some (500, Err e)
      | Inr None \<Rightarrow> Some (500, Err (TypeError ''allowed.includes is not a function''))
      | Inr (Some allowed) \<Rightarrow>
          if s \<in> set allowed then None else Some (invalidTransition (status x) allowed))"

text \<open>\<open>PATCH /issues/:id/status\<close>, with the body's \<open>status\<close> and \<open>note\<close>.\<close>

definition updateStatus ::
  "nat \<Rightarrow> string \<Rightarrow> string option \<Rightarrow> string option \<Rightarrow> authed \<Rightarrow> state \<Rightarrow> state \<times> reply" where
  "updateStatus now i st_new note ru st =
     (case st_new of
        None \<Rightarrow> (st, (400, Message ''Status is required''))
      | Some s \<Rightarrow>
          if s = [] then (st, (400, Message ''Status is required''))
          else if \<not> isValidObjectId i then (st, (500, Err BSONError))
          else
            (case findIssue i (issues st) of
               None \<Rightarrow> (st, (404, Message ''Issue not found''))
             | Some x \<Rightarrow>
                 (case findUser (a_email ru) (users st) of
                    None \<Rightarrow> (st, (403, Message ''Forbidden''))
                  | Some usr \<Rightarrow>
                      if role usr = ''citizen'' \<or> role usr = ''user''
                      then (st, (403, Message ''Forbidden: Citizens cannot update status''))
                      else if role usr = ''staff'' \<and> assignedStaff x \<noteq> Some (a_email ru)
                      then (st, (403, Message ''Forbidden: Not assigned to you''))
                      else
                        (case (if role usr = ''staff'' then validateFlow x s else None) of
                           Some r \<Rightarrow> (st, r)
                         | None \<Rightarrow>
                             (st\<lparr>issues := updateOne i (\<lambda>d. d\<lparr>status := JStr s\<rparr>) (issues st),
                                 timeline := timeline st @
                                   [\<lparr>t_issueId = i, t_status = JStr s,
                                     t_message = orS note (''Status changed to '' @ s),
                                     t_updatedBy = a_email ru, t_time = now\<rparr>]\<rparr>,
                              (200, Modified (modifiedCount (\<lambda>d. d\<lparr>status := JStr s\<rparr>) (Some x))))))))"

definition patchIssueStatus ::
  "nat \<Rightarrow> credential \<Rightarrow> string \<Rightarrow> string option \<Rightarrow> string option \<Rightarrow> state \<Rightarrow> state \<times> reply" where
  "patchIssueStatus now cred i st_new note = route now cred [] (updateStatus now i st_new note)"

section \<open>Issue routes\<close>

text \<open>
  \<open>POST /issues\<close>. \<open>newId\<close> is the id the driver generates for the inserted
  document (one that no document of the collection has). The body's
  \<open>reporterEmail\<close>, \<open>userEmail\<close>, \<open>reportedAt\<close> and \<open>isHidden\<close> are
  overwritten; \<open>status\<close>, \<open>priority\<close>, \<open>upvotes\<close> and \<open>upvoters\<close> are
  defaulted with \<open>||\<close>, which keeps every truthy value the body carries, of any
  type; every other field is stored as sent (of \<open>isBoosted\<close>, which is only ever
  tested, its truthiness).
\<close>

definition createIssue :: "nat \<Rightarrow> string \<Rightarrow> issue_body \<Rightarrow> authed \<Rightarrow> state \<Rightarrow> state \<times> reply" where
  "createIssue now newId body ru st =
     (let usr = findUser (a_email ru) (users st);
          issueCount = countDocuments (a_email ru) (issues st)
      in if \<not> (case usr of None \<Rightarrow> False | Some u \<Rightarrow> premium u) \<and> issueCount \<ge> 3
         then (st, (403, Message ''Free user limit reached. Upgrade to premium.''))
         else
           (let x = \<lparr>iid = newId,
                     reporterEmail = a_email ru,
                     userEmail = a_email ru,
                     title = b_title body,
                     description = b_description body,
                     location = b_location body,
                     category = b_category body,
                     status = orJ (b_status body) (JStr ''pending''),
                     priority = orJ (b_priority body) (JStr ''normal''),
                     reportedAt = now,
                     upvotes = orJ (b_upvotes body) (JNum 0),
                     upvoters = orJ (b_upvoters body) (JArr []),
                     isHidden = False,
                     isBoosted = (case b_isBoosted body of None \<Rightarrow> False | Some v \<Rightarrow> truthy v),
                     assignedStaff = b_assignedStaff body,
                     assignedAt = b_assignedAt body\<rparr>
            in (st\<lparr>issues := issues st @ [x],
                    timeline := timeline st @
                      [\<lparr>t_issueId = newId, t_status = status x, t_message = ''Issue reported'',
                        t_updatedBy = a_email ru, t_time = now\<rparr>]\<rparr>,
                (200, Inserted newId))))"

definition postIssue :: "nat \<Rightarrow> credential \<Rightarrow> string \<Rightarrow> issue_body \<Rightarrow> state \<Rightarrow> state \<times> reply" where
  "postIssue now cred newId body = route now cred [checkBlocked] (createIssue now newId body)"

text \<open>\<open>PATCH /issues/assign/:id\<close>, with the body's \<open>staffEmail\<close>.\<close>

definition assignIssue :: "nat \<Rightarrow> string \<Rightarrow> string option \<Rightarrow> authed \<Rightarrow> state \<Rightarrow> state \<times> reply" where
  "assignIssue now i staffEmail ru st =
     (if \<not> isValidObjectId i then (st, (400, Message ''Invalid issue ID''))
      else
        (case staffEmail of
           None \<Rightarrow> (st, (400, Message ''Staff email required''))
         | Some se \<Rightarrow>
             if se = [] then (st, (400, Message ''Staff email required''))
             else
               (case findStaff se (users st) of
                  None \<Rightarrow> (st, (404, Message ''Staff not found''))
                | Some staff \<Rightarrow>
                    (case findIssue i (issues st) of
                       None \<Rightarrow> (st, (404, Message ''Issue not found''))
                     | Some x \<Rightarrow>
                         (let f = (\<lambda>d. d\<lparr>assignedStaff := Some se, status := JStr ''in-progress'',
                                           assignedAt := Some now\<rparr>)
                          in (st\<lparr>issues := updateOne i f (issues st),
                                  timeline := timeline st @
                                    [\<lparr>t_issueId = i, t_status = JStr ''in-progress'',
                                      t_message = ''Assigned to staff '' @ se,
                                      t_updatedBy = a_email ru, t_time = now\<rparr>]\<rparr>,
                              (200, Modified (modifiedCount f (Some x)))))))))"

definition patchAssign :: "nat \<Rightarrow> credential \<Rightarrow> string \<Rightarrow> string option \<Rightarrow> state \<Rightarrow> state \<times> reply" where
  "patchAssign now cred i staffEmail = route now cred [requireRole ''admin''] (assignIssue now i staffEmail)"

text \<open>
  \<open>PATCH /issues/upvote/:id\<close>. \<open>applyUpvote e d\<close> is the one update
  \<open>{ $inc: { upvotes: 1 }, $push: { upvoters: e } }\<close> of the document \<open>d\<close>:
  the store applies both or, when it refuses one of them, neither (\<open>None\<close>, and
  the handler's catch answers 500). \<open>upvoted e\<close> is the update as \<open>updateOne\<close>
  applies it.
\<close>

definition applyUpvote :: "string \<Rightarrow> issue \<Rightarrow> issue option" where
  "applyUpvote e d =
     (case (incNumber (upvotes d), pushValue (upvoters d) (JStr e)) of
        (Some n, Some vs) \<Rightarrow> Some (d\<lparr>upvotes := n, upvoters := vs\<rparr>)
      | _ \<Rightarrow> None)"

definition upvoted :: "string \<Rightarrow> issue \<Rightarrow> issue" where
  "upvoted e d = (case applyUpvote e d of None \<Rightarrow> d | Some d' \<Rightarrow> d')"

definition upvoteIssue :: "string \<Rightarrow> authed \<Rightarrow> state \<Rightarrow> state \<times> reply" where
  "upvoteIssue i ru st =
     (if \<not> isValidObjectId i then (st, (500, Err BSONError))
      else
        (case findIssue i (issues st) of
           None \<Rightarrow> (st, (404, Message ''Issue not found''))
         | Some x \<Rightarrow>
             if reporterEmail x = a_email ru
             then (st, (403, Message ''You cannot upvote your own issue''))
             else
               (case includesJS (upvoters x) (a_email ru) of
                  Inl e \<Rightarrow> (st, (500, Err e))
                | Inr True \<Rightarrow> (st, (400, Message ''You already upvoted this issue''))
                | Inr False \<Rightarrow>
                    (case applyUpvote (a_email ru) x of
                       None \<Rightarrow> (st, (500, Err MongoServerError))
                     | Some x' \<Rightarrow>
                         (st\<lparr>issues := updateOne i (upvoted (a_email ru)) (issues st)\<rparr>,
                          (200, Modified (modifiedCount (upvoted (a_email ru)) (Some x))))))))"

definition patchUpvote :: "nat \<Rightarrow> credential \<Rightarrow> string \<Rightarrow> state \<Rightarrow> state \<times> reply" where
  "patchUpvote now cred i = route now cred [] (upvoteIssue i)"

text \<open>\<open>POST /issues/:id/boost\<close>, with the body's \<open>paymentId\<close> and \<open>amount\<close>.\<close>

definition boostIssue ::
  "nat \<Rightarrow> string \<Rightarrow> string option \<Rightarrow> int option \<Rightarrow> authed \<Rightarrow> state \<Rightarrow> state \<times> reply" where
  "boostIssue now i paymentId amount ru st =
     (case (paymentId, amount) of
        (Some pid, Some amt) \<Rightarrow>
          if pid = [] \<or> amt = 0
          then (st, (400, Message ''paymentId and amount required''))
          else if \<not> isValidObjectId i then (st, (500, Err BSONError))
          else
            (case findIssue i (issues st) of
               None \<Rightarrow> (st, (404, Message ''Issue not found''))
             | Some x \<Rightarrow>
                 if isBoosted x \<or> priority x = JStr ''high''
                 then (st, (400, Message ''Issue already boosted''))
                 else
                   (let f = (\<lambda>d. d\<lparr>priority := JStr ''high'', isBoosted := True\<rparr>)
                    in (st\<lparr>payments := payments st @
                              [\<lparr>p_issueId = i, p_userEmail = a_email ru,
                                p_paymentId = pid, p_amount = amt,
                                p_purpose = ''issue_boost'', p_date = now\<rparr>],
                            issues := updateOne i f (issues st),
                            timeline := timeline st @
                              [\<lparr>t_issueId = i, t_status = JStr ''boosted'',
                                t_message = ''Priority boosted via payment'',
                                t_updatedBy = a_email ru, t_time = now\<rparr>]\<rparr>,
                        (200, Modified (modifiedCount f (Some x))))))
      | _ \<Rightarrow> (st, (400, Message ''paymentId and amount required'')))"

definition postBoost ::
  "nat \<Rightarrow> credential \<Rightarrow> string \<Rightarrow> string option \<Rightarrow> int option \<Rightarrow> state \<Rightarrow> state \<times> reply" where
  "postBoost now cred i paymentId amount =
     route now cred [checkBlocked] (boostIssue now i paymentId amount)"

text \<open>\<open>$set: req.body\<close>: every field the body carries overwrites the document's.\<close>

definition setBody :: "issue_body \<Rightarrow> issue \<Rightarrow> issue" where
  "setBody b d =
     d\<lparr>reporterEmail := (case b_reporterEmail b of None \<Rightarrow> reporterEmail d | Some v \<Rightarrow> v),
       userEmail := (case b_userEmail b of None \<Rightarrow> userEmail d | Some v \<Rightarrow> v),
       title := (case b_title b of None \<Rightarrow> title d | Some v \<Rightarrow> Some v),
       description := (case b_description b of None \<Rightarrow> description d | Some v \<Rightarrow> Some v),
       location := (case b_location b of None \<Rightarrow> location d | Some v \<Rightarrow> Some v),
       category := (case b_category b of None \<Rightarrow> category d | Some v \<Rightarrow> Some v),
       status := (case b_status b of None \<Rightarrow> status d | Some v \<Rightarrow> v),
       priority := (case b_priority b of None \<Rightarrow> priority d | Some v \<Rightarrow> v),
       reportedAt := (case b_reportedAt b of None \<Rightarrow> reportedAt d | Some v \<Rightarrow> v),
       upvotes := (case b_upvotes b of None \<Rightarrow> upvotes d | Some v \<Rightarrow> v),
       upvoters := (case b_upvoters b of None \<Rightarrow> upvoters d | Some v \<Rightarrow> v),
       isHidden := (case b_isHidden b of None \<Rightarrow> isHidden d | Some v \<Rightarrow> truthy v),
       isBoosted := (case b_isBoosted b of None \<Rightarrow> isBoosted d | Some v \<Rightarrow> truthy v),
       assignedStaff := (case b_assignedStaff b of None \<Rightarrow> assignedStaff d | Some v \<Rightarrow> Some v),
       assignedAt := (case b_assignedAt b of None \<Rightarrow> assignedAt d | Some v \<Rightarrow> Some v)\<rparr>"

text \<open>\<open>PATCH /issues/edit/:id\<close> (reporter only)\<close>

definition editIssue :: "string \<Rightarrow> issue_body \<Rightarrow> authed \<Rightarrow> state \<Rightarrow> state \<times> reply" where
  "editIssue i body ru st =
     (if \<not> isValidObjectId i then (st, (500, Err BSONError))
      else
        (case findIssue i (issues st) of
           None \<Rightarrow> (st, (404, Message ''Not found''))
         | Some x \<Rightarrow>
             if reporterEmail x \<noteq> a_email ru then (st, (403, Message ''Not your issue''))
             else (st\<lparr>issues := updateOne i (setBody body) (issues st)\<rparr>,
                   (200, Modified (modifiedCount (setBody body) (Some x))))))"

definition patchEdit :: "nat \<Rightarrow> credential \<Rightarrow> string \<Rightarrow> issue_body \<Rightarrow> state \<Rightarrow> state \<times> reply" where
  "patchEdit now cred i body = route now cred [] (editIssue i body)"

text \<open>
  \<open>DELETE /issues/:id\<close>. \<open>removeIssue\<close> is the tail both permitted branches reach:
  the \<open>deleteOne\<close> and the timeline entry.
\<close>

definition removeIssue :: "nat \<Rightarrow> string \<Rightarrow> authed \<Rightarrow> state \<Rightarrow> state \<times> reply" where
  "removeIssue now i ru st =
     (st\<lparr>issues := deleteOne i (issues st),
         timeline := timeline st @
           [\<lparr>t_issueId = i, t_status = JStr ''deleted'',
             t_message = ''Issue deleted by '' @ a_email ru,
             t_updatedBy = a_email ru, t_time = now\<rparr>]\<rparr>,
      (200, Deleted 1))"

definition deleteIssue :: "nat \<Rightarrow> string \<Rightarrow> authed \<Rightarrow> state \<Rightarrow> state \<times> reply" where
  "deleteIssue now i ru st =
     (if \<not> isValidObjectId i then (st, (500, Err BSONError))
      else
        (case findIssue i (issues st) of
           None \<Rightarrow> (st, (404, Message ''Not found''))
         | Some x \<Rightarrow>
             (case findUser (a_email ru) (users st) of
                None \<Rightarrow> (st, (403, Message ''Forbidden''))
              | Some usr \<Rightarrow>
                  if a_email ru = reporterEmail x
                  then
                    (if status x \<noteq> JStr ''pending''
                     then (st, (400, Message ''Only pending issues can be deleted by reporter''))
                     else removeIssue now i ru st)
                  else if role usr \<noteq> ''admin''
                  then (st, (403, Message ''Unauthorized''))
                  else removeIssue now i ru st)))"

definition deleteIssueRoute :: "nat \<Rightarrow> credential \<Rightarrow> string \<Rightarrow> state \<Rightarrow> state \<times> reply" where
  "deleteIssueRoute now cred i = route now cred [] (deleteIssue now i)"

text \<open>
  \<open>PATCH /issues/priority/:id\<close> (admin only), with the body's \<open>priority\<close>. The
  update's \<open>modifiedCount\<close> is 0 when no issue has the id or the priority is
  already the requested one.
\<close>

definition setPriority :: "nat \<Rightarrow> string \<Rightarrow> string option \<Rightarrow> authed \<Rightarrow> state \<Rightarrow> state \<times> reply" where
  "setPriority now i prio ru st =
     (case prio of
        None \<Rightarrow> (st, (400, Message ''Invalid priority''))
      | Some p \<Rightarrow>
          if p \<notin> set [''low'', ''normal'', ''high'']
          then (st, (400, Message ''Invalid priority''))
          else if \<not> isValidObjectId i then (st, (500, Err BSONError))
          else if modifiedCount (\<lambda>d. d\<lparr>priority := JStr p\<rparr>) (findIssue i (issues st)) = 0
          then (st, (404, Message ''Issue not found or unchanged''))
          else (st\<lparr>issues := updateOne i (\<lambda>d. d\<lparr>priority := JStr p\<rparr>) (issues st),
                    timeline := timeline st @
                      [\<lparr>t_issueId = i, t_status = JStr ''priority-updated'',
                        t_message = ''Priority set to '' @ p,
                        t_updatedBy = a_email ru, t_time = now\<rparr>]\<rparr>,
                (200, Modified 1)))"

definition patchPriority :: "nat \<Rightarrow> credential \<Rightarrow> string \<Rightarrow> string option \<Rightarrow> state \<Rightarrow> state \<times> reply" where
  "patchPriority now cred i prio = route now cred [requireRole ''admin''] (setPriority now i prio)"

section \<open>User routes\<close>

text \<open>\<open>GET /users/role/:email\<close>\<close>

definition getRole :: "string \<Rightarrow> authed \<Rightarrow> state \<Rightarrow> state \<times> reply" where
  "getRole target ru st =
     (if a_email ru \<noteq> target then (st, (200, RoleOf ''citizen''))
      else (st, (200, RoleOf (orS (map_option role (findUser target (users st))) ''citizen''))))"

definition getUserRole :: "nat \<Rightarrow> credential \<Rightarrow> string \<Rightarrow> state \<Rightarrow> state \<times> reply" where
  "getUserRole now cred target = route now cred [] (getRole target)"

text \<open>\<open>PATCH /users/membership/:email\<close>, with the body's \<open>status\<close>.\<close>

definition updateMembership :: "string \<Rightarrow> string option \<Rightarrow> authed \<Rightarrow> state \<Rightarrow> state \<times> reply" where
  "updateMembership target st_new ru st =
     (case st_new of
        None \<Rightarrow> (st, (400, Message ''Missing status''))
      | Some s \<Rightarrow>
          if s = [] then (st, (400, Message ''Missing status''))
          else if a_email ru \<noteq> target then (st, (403, Message ''Unauthorized''))
          else
            (let isPremium = (s = ''premium'')
             in (st\<lparr>users := updateUser target (\<lambda>u. u\<lparr>premium := isPremium\<rparr>) (users st)\<rparr>,
                 (200, Modified (modifiedCount (\<lambda>u. u\<lparr>premium := isPremium\<rparr>)
                                   (findUser target (users st)))))))"

definition patchMembership :: "nat \<Rightarrow> credential \<Rightarrow> string \<Rightarrow> string option \<Rightarrow> state \<Rightarrow> state \<times> reply" where
  "patchMembership now cred target st_new = route now cred [] (updateMembership target st_new)"

section \<open>Requests\<close>

text \<open>
  The requests that are modelled, and the server's answer to one: the eight routes
  that write the issues collection, and the two user routes the properties below are
  about. No other route of the service writes the issues collection.
\<close>

datatype request =
    PostIssue string issue_body
  | PatchAssign string "string option"
  | PatchUpvote string
  | PatchStatus string "string option" "string option"
  | PostBoost string "string option" "int option"
  | PatchEdit string issue_body
  | DeleteIssue string
  | PatchPriority string "string option"
  | GetUserRole string
  | PatchMembership string "string option"

fun handle :: "nat \<Rightarrow> credential \<Rightarrow> request \<Rightarrow> state \<Rightarrow> state \<times> reply" where
  "handle now cred (PostIssue newId body) st = postIssue now cred newId body st"
| "handle now cred (PatchAssign i staffEmail) st = patchAssign now cred i staffEmail st"
| "handle now cred (PatchUpvote i) st = patchUpvote now cred i st"
| "handle now cred (PatchStatus i st_new note) st = patchIssueStatus now cred i st_new note st"
| "handle now cred (PostBoost i paymentId amount) st = postBoost now cred i paymentId amount st"
| "handle now cred (PatchEdit i body) st = patchEdit now cred i body st"
| "handle now cred (DeleteIssue i) st = deleteIssueRoute now cred i st"
| "handle now cred (PatchPriority i prio) st = patchPriority now cred i prio st"
| "handle now cred (GetUserRole target) st = getUserRole now cred target st"
| "handle now cred (PatchMembership target st_new) st = patchMembership now cred target st_new st"

fun isEdit :: "request \<Rightarrow> bool" where
  "isEdit (PatchEdit i body) = True"
| "isEdit r = False"

section \<open>Notions of the specification\<close>

text \<open>
  The issues of \<open>e\<close> whose status is in the open set (not closed, not deleted), as
  the specification counts them; the code counts with \<open>countDocuments\<close>.
\<close>

definition openIssues :: "string \<Rightarrow> issue list \<Rightarrow> nat" where
  "openIssues e xs =
     length (filter (\<lambda>x. reporterEmail x = e \<and> status x \<noteq> JStr ''closed'' \<and>
                          status x \<noteq> JStr ''deleted'') xs)"


section \<open>Example data\<close>

definition idA :: string where
  "idA = ''64b7f0c2a1d3e4f5a6b7c8d9''"

definition idB :: string where
  "idB = ''64b7f0c2a1d3e4f5a6b7c8da''"

definition idC :: string where
  "idC = ''64b7f0c2a1d3e4f5a6b7c8db''"

definition idD :: string where
  "idD = ''64b7f0c2a1d3e4f5a6b7c8dc''"

definition mkUser :: "string \<Rightarrow> string \<Rightarrow> bool \<Rightarrow> user" where
  "mkUser e r p =
     \<lparr>email = e, name = [], imageUrl = [], role = r, premium = p, isBlocked = False,
      hasPassword = False, createdAt = 0\<rparr>"

definition tok :: "string \<Rightarrow> credential" where
  "tok e = Verified \<lparr>d_email = e, d_uid = ''uid-'' @ e, d_name = None, d_picture = None\<rparr>"

definition emptyBody :: issue_body where
  "emptyBody =
     \<lparr>b_reporterEmail = None, b_userEmail = None, b_title = None, b_description = None,
      b_location = None, b_category = None, b_status = None, b_priority = None,
      b_reportedAt = None, b_upvotes = None, b_upvoters = None, b_isHidden = None,
      b_isBoosted = None, b_assignedStaff = None, b_assignedAt = None\<rparr>"

definition mkIssue :: "string \<Rightarrow> string \<Rightarrow> string \<Rightarrow> string option \<Rightarrow> issue" where
  "mkIssue i e s a =
     \<lparr>iid = i, reporterEmail = e, userEmail = e, title = Some (JStr ''Pothole''),
      description = None, location = None, category = None, status = JStr s,
      priority = JStr ''normal'', reportedAt = 1, upvotes = JNum 0, upvoters = JArr [],
      isHidden = False, isBoosted = False, assignedStaff = a, assignedAt = None\<rparr>"

text \<open>
  A citizen \<open>cara\<close>, a premium citizen \<open>pat\<close>, a staff member \<open>sam\<close> and
  an admin \<open>ada\<close>.
\<close>

definition people :: "user list" where
  "people =
     [mkUser ''cara'' ''citizen'' False, mkUser ''pat'' ''citizen'' True,
      mkUser ''sam'' ''staff'' False, mkUser ''ada'' ''admin'' False]"

definition world :: "issue list \<Rightarrow> state" where
  "world xs = \<lparr>users = people, issues = xs, timeline = [], payments = []\<rparr>"

section \<open>Facts about the store and the middleware\<close>

lemma find_append_None: "find P xs = None \<Longrightarrow> find P (xs @ ys) = find P ys"
  by (induction xs) (auto split: if_splits)

lemma find_append_Some: "find P xs = Some x \<Longrightarrow> find P (xs @ ys) = Some x"
  by (induction xs) (auto split: if_splits)

lemma findIssue_iid: "findIssue i xs = Some x \<Longrightarrow> iid x = i"
  unfolding findIssue_def by (induction xs) (auto split: if_splits)

lemma findIssue_None_iff: "findIssue i xs = None \<longleftrightarrow> i \<notin> iid ` set xs"
  unfolding findIssue_def by (auto simp: find_None_iff)

lemma findIssue_append: "findIssue i xs = Some x \<Longrightarrow> findIssue i (xs @ ys) = Some x"
  unfolding findIssue_def by (rule find_append_Some)

lemma findIssue_updateOne_same:
  "findIssue i xs = Some x \<Longrightarrow> iid (f x) = iid x \<Longrightarrow> findIssue i (updateOne i f xs) = Some (f x)"
  unfolding findIssue_def by (induction xs) (auto split: if_splits)

lemma findIssue_updateOne_other:
  "j \<noteq> i \<Longrightarrow> (\<And>d. iid (f d) = iid d) \<Longrightarrow> findIssue j (updateOne i f xs) = findIssue j xs"
  unfolding findIssue_def by (induction xs) (auto split: if_splits)

lemma findIssue_deleteOne_other:
  "j \<noteq> i \<Longrightarrow> findIssue j (deleteOne i xs) = findIssue j xs"
  unfolding findIssue_def by (induction xs) (auto split: if_splits)

lemma length_deleteOne:
  "findIssue i xs = Some x \<Longrightarrow> Suc (length (deleteOne i xs)) = length xs"
  unfolding findIssue_def by (induction xs) (auto split: if_splits)

lemma findIssue_deleteOne_distinct:
  "distinct (map iid xs) \<Longrightarrow> findIssue i (deleteOne i xs) = None"
proof (induction xs)
  case Nil
  then show ?case by (simp add: findIssue_def)
next
  case (Cons a xs)
  show ?case
  proof (cases "iid a = i")
    case True
    with Cons.prems have "i \<notin> iid ` set xs" by auto
    with True show ?thesis by (simp add: findIssue_None_iff)
  next
    case False
    with Cons show ?thesis by (simp add: findIssue_def)
  qed
qed

text \<open>An update that keeps the id and the reporter keeps every issue's reporter.\<close>

lemma updateOne_keeps_reporter:
  assumes "findIssue j xs = Some y" and "findIssue j (updateOne i f xs) = Some y'"
    and "\<And>d. iid (f d) = iid d" and "\<And>d. reporterEmail (f d) = reporterEmail d"
  shows "reporterEmail y' = reporterEmail y"
proof (cases "j = i")
  case True
  with assms(1) assms(3) have "findIssue j (updateOne i f xs) = Some (f y)"
    by (simp add: findIssue_updateOne_same)
  with assms(2) have "y' = f y" by simp
  then show ?thesis by (simp add: assms(4))
next
  case False
  then have "findIssue j (updateOne i f xs) = findIssue j xs"
    by (simp add: findIssue_updateOne_other assms(3))
  with assms(1) assms(2) show ?thesis by simp
qed

lemma findUser_updateUser:
  "(\<And>u. email (f u) = email u) \<Longrightarrow> findUser e (updateUser e f us) = map_option f (findUser e us)"
  unfolding findUser_def by (induction us) (auto split: if_splits)

lemma findStaff_None_iff:
  "findStaff e us = None \<longleftrightarrow> \<not> (\<exists>u \<in> set us. email u = e \<and> role u = ''staff'')"
  unfolding findStaff_def by (auto simp: find_None_iff)

lemma open_le_count: "openIssues e xs \<le> countDocuments e xs"
  unfolding openIssues_def countDocuments_def by (induction xs) auto

text \<open>
  After \<open>verifyToken\<close> the caller has a user record, \<open>req.user\<close> carries its role and
  flags, and only the users collection may have grown.
\<close>

lemma verifyToken_user:
  assumes "verifyToken now cred st = Inr (ru, st1)"
  shows "\<exists>usr. findUser (a_email ru) (users st1) = Some usr \<and> role usr = a_role ru \<and>
           premium usr = a_isPremium ru \<and> isBlocked usr = a_isBlocked ru"
  using assms unfolding verifyToken_def findUser_def
  by (auto split: credential.splits option.splits simp: Let_def find_append_None)

lemma verifyToken_rest:
  assumes "verifyToken now cred st = Inr (ru, st1)"
  shows "issues st1 = issues st" and "timeline st1 = timeline st" and "payments st1 = payments st"
  using assms unfolding verifyToken_def
  by (auto split: credential.splits option.splits simp: Let_def)

lemma verifyToken_again:
  assumes "verifyToken now cred st = Inr (ru, st1)" and "users st2 = users st1"
  shows "verifyToken now' cred st2 = Inr (ru, st2)"
  using assms unfolding verifyToken_def findUser_def
  by (auto split: credential.splits option.splits simp: Let_def find_append_None)

lemma route_authed:
  assumes "verifyToken now cred st = Inr (ru, st1)"
  shows "route now cred gs h st = (case guards gs ru of Some r \<Rightarrow> (st1, r) | None \<Rightarrow> h ru st1)"
  using assms unfolding route_def by simp

lemma route_unauthed:
  assumes "verifyToken now cred st = Inl r"
  shows "route now cred gs h st = (st, r)"
  using assms unfolding route_def by simp

text \<open>Evaluation of the example data.\<close>

lemma isValid_idA: "isValidObjectId idA"
  by (simp add: isValidObjectId_def idA_def hexDigit_def)

lemma isValid_idB: "isValidObjectId idB"
  by (simp add: isValidObjectId_def idB_def hexDigit_def)

lemma idA_neq_idB: "idA \<noteq> idB"
  by (simp add: idA_def idB_def)

lemma verify_cara:
  "verifyToken now (tok ''cara'') (world xs) =
     Inr (\<lparr>a_email = ''cara'', a_uid = ''uid-cara'', a_role = ''citizen'', a_isBlocked = False,
            a_isPremium = False\<rparr>, world xs)"
  by (simp add: verifyToken_def tok_def world_def people_def mkUser_def findUser_def)

lemma verify_pat:
  "verifyToken now (tok ''pat'') (world xs) =
     Inr (\<lparr>a_email = ''pat'', a_uid = ''uid-pat'', a_role = ''citizen'', a_isBlocked = False,
            a_isPremium = True\<rparr>, world xs)"
  by (simp add: verifyToken_def tok_def world_def people_def mkUser_def findUser_def)

lemma verify_sam:
  "verifyToken now (tok ''sam'') (world xs) =
     Inr (\<lparr>a_email = ''sam'', a_uid = ''uid-sam'', a_role = ''staff'', a_isBlocked = False,
            a_isPremium = False\<rparr>, world xs)"
  by (simp add: verifyToken_def tok_def world_def people_def mkUser_def findUser_def)

lemma verify_ada:
  "verifyToken now (tok ''ada'') (world xs) =
     Inr (\<lparr>a_email = ''ada'', a_uid = ''uid-ada'', a_role = ''admin'', a_isBlocked = False,
            a_isPremium = False\<rparr>, world xs)"
  by (simp add: verifyToken_def tok_def world_def people_def mkUser_def findUser_def)

lemma find_first: "iid x = i \<Longrightarrow> findIssue i (x # xs) = Some x"
  by (simp add: findIssue_def)














text \<open>The update of an upvote, where the store accepts it.\<close>

lemma applyUpvote_keeps:
  "applyUpvote e d = Some d' \<Longrightarrow> iid d' = iid d \<and> reporterEmail d' = reporterEmail d"
  by (auto simp: applyUpvote_def split: option.splits)

lemma upvoted_keeps: "iid (upvoted e d) = iid d" "reporterEmail (upvoted e d) = reporterEmail d"
  by (auto simp: upvoted_def dest: applyUpvote_keeps split: option.splits)



section \<open>Properties of the routes\<close>

subsection \<open>Role lookup\<close>

text \<open>
  C9. For every authenticated request to \<open>GET /users/role/:email\<close> whose requester's
  e-mail differs from the target e-mail, the reply is a success (200, not 403) carrying
  the role \<open>citizen\<close>, whatever the state holds: it depends neither on the requester's
  stored role nor on the target's, so the target's role is not revealed.
\<close>

theorem role_lookup_hides_role:
  assumes "verifyToken now cred st = Inr (ru, st1)" and "a_email ru \<noteq> target"
  shows "getUserRole now cred target st = (st1, (200, RoleOf ''citizen''))"
  using assms by (simp add: getUserRole_def route_authed getRole_def)

text \<open>An admin asks for the role of the staff member \<open>sam\<close> and is told \<open>citizen\<close>.\<close>

theorem role_lookup_hides_role_witness:
  "verifyToken 7 (tok ''ada'') (world []) =
     Inr (\<lparr>a_email = ''ada'', a_uid = ''uid-ada'', a_role = ''admin'', a_isBlocked = False,
            a_isPremium = False\<rparr>, world []) \<and>
   ''ada'' \<noteq> ''sam'' \<and>
   map_option role (findUser ''sam'' (users (world []))) = Some ''staff'' \<and>
   getUserRole 7 (tok ''ada'') ''sam'' (world []) = (world [], (200, RoleOf ''citizen''))"
proof -
  have a: "verifyToken 7 (tok ''ada'') (world []) =
     Inr (\<lparr>a_email = ''ada'', a_uid = ''uid-ada'', a_role = ''admin'', a_isBlocked = False,
            a_isPremium = False\<rparr>, world [])"
    by (rule verify_ada)
  have b: "a_email \<lparr>a_email = ''ada'', a_uid = ''uid-ada'', a_role = ''admin'', a_isBlocked = False,
            a_isPremium = False\<rparr> \<noteq> ''sam''"
    by simp
  have c: "map_option role (findUser ''sam'' (users (world []))) = Some ''staff''"
    by (simp add: findUser_def world_def people_def mkUser_def)
  from role_lookup_hides_role [OF a b] a c show ?thesis by simp
qed

subsection \<open>Membership\<close>

text \<open>
  C10. For every authenticated request to \<open>PATCH /users/membership/:email\<close> whose
  requester's e-mail is the target e-mail and whose body carries a status, the caller's
  premium flag becomes true when the status is \<open>premium\<close> and false for any other
  status; a premium caller who sends another status loses the flag, so the flag is not
  monotonic.
\<close>

theorem membership_sets_flag:
  assumes "verifyToken now cred st = Inr (ru, st1)" and "a_email ru = target" and "s \<noteq> []"
  shows "\<exists>st' u u' n. patchMembership now cred target (Some s) st = (st', (200, Modified n)) \<and>
           findUser target (users st1) = Some u \<and>
           findUser target (users st') = Some u' \<and>
           premium u' = (s = ''premium'') \<and>
           (premium u \<and> s \<noteq> ''premium'' \<longrightarrow> \<not> premium u')"
proof -
  from verifyToken_user [OF assms(1)] assms(2)
  obtain u where u: "findUser target (users st1) = Some u" by auto
  let ?f = "\<lambda>u. u\<lparr>premium := (s = ''premium'')\<rparr>"
  have "findUser target (updateUser target ?f (users st1)) = Some (?f u)"
    using u by (simp add: findUser_updateUser)
  with u assms show ?thesis
    by (simp add: patchMembership_def route_authed updateMembership_def Let_def)
qed

text \<open>The premium citizen \<open>pat\<close> sends the status \<open>free\<close> and is no longer premium.\<close>

theorem membership_sets_flag_witness:
  "verifyToken 7 (tok ''pat'') (world []) =
     Inr (\<lparr>a_email = ''pat'', a_uid = ''uid-pat'', a_role = ''citizen'', a_isBlocked = False,
            a_isPremium = True\<rparr>, world []) \<and>
   ''free'' \<noteq> [] \<and>
   (\<exists>st' u u' n. patchMembership 7 (tok ''pat'') ''pat'' (Some ''free'') (world []) = (st', (200, Modified n)) \<and>
      findUser ''pat'' (users (world [])) = Some u \<and> premium u \<and>
      findUser ''pat'' (users st') = Some u' \<and> \<not> premium u')"
proof -
  have a: "verifyToken 7 (tok ''pat'') (world []) =
     Inr (\<lparr>a_email = ''pat'', a_uid = ''uid-pat'', a_role = ''citizen'', a_isBlocked = False,
            a_isPremium = True\<rparr>, world [])"
    by (rule verify_pat)
  have b: "a_email \<lparr>a_email = ''pat'', a_uid = ''uid-pat'', a_role = ''citizen'', a_isBlocked = False,
            a_isPremium = True\<rparr> = ''pat''"
    by simp
  have c: "''free'' \<noteq> []" by simp
  have d: "findUser ''pat'' (users (world [])) = Some (mkUser ''pat'' ''citizen'' True)"
    by (simp add: findUser_def world_def people_def mkUser_def)
  have e: "premium (mkUser ''pat'' ''citizen'' True)" by (simp add: mkUser_def)
  from membership_sets_flag [OF a b c] obtain st' u u' n where
    "patchMembership 7 (tok ''pat'') ''pat'' (Some ''free'') (world []) = (st', (200, Modified n))"
    "findUser ''pat'' (users (world [])) = Some u" "findUser ''pat'' (users st') = Some u'"
    "premium u' = (''free'' = ''premium'')" by blast
  with a d e show ?thesis by auto
qed

subsection \<open>Quota\<close>

text \<open>
  C3. For every issue-creation request of an authenticated caller who is not blocked:
  when the caller is not premium and already has at least 3 issues in the open set (not
  closed, not deleted), the request is rejected with the quota reply (403, the free
  user limit); in particular a caller who is not premium and has exactly 3 issues is
  rejected on the 4th attempt; and a premium caller's request is never rejected for
  quota, it is answered with the inserted id.
\<close>

theorem quota_rules:
  assumes "verifyToken now cred st = Inr (ru, st1)" and "\<not> a_isBlocked ru"
  shows "(\<not> a_isPremium ru \<and> 3 \<le> openIssues (a_email ru) (issues st) \<longrightarrow>
            postIssue now cred newId body st =
              (st1, (403, Message ''Free user limit reached. Upgrade to premium.''))) \<and>
         (\<not> a_isPremium ru \<and> countDocuments (a_email ru) (issues st) = 3 \<longrightarrow>
            postIssue now cred newId body st =
              (st1, (403, Message ''Free user limit reached. Upgrade to premium.''))) \<and>
         (a_isPremium ru \<longrightarrow> snd (postIssue now cred newId body st) = (200, Inserted newId))"
proof -
  from verifyToken_user [OF assms(1)] obtain usr where
    u: "findUser (a_email ru) (users st1) = Some usr" "premium usr = a_isPremium ru" by blast
  have i: "issues st1 = issues st" using assms(1) by (rule verifyToken_rest)
  have r: "postIssue now cred newId body st = createIssue now newId body ru st1"
    using assms by (simp add: postIssue_def route_authed checkBlocked_def)
  have le: "openIssues (a_email ru) (issues st) \<le> countDocuments (a_email ru) (issues st)"
    by (rule open_le_count)
  have full: "\<not> a_isPremium ru \<Longrightarrow> 3 \<le> countDocuments (a_email ru) (issues st) \<Longrightarrow>
      createIssue now newId body ru st1 =
        (st1, (403, Message ''Free user limit reached. Upgrade to premium.''))"
    using u i by (simp add: createIssue_def Let_def)
  have prem: "a_isPremium ru \<Longrightarrow> snd (createIssue now newId body ru st1) = (200, Inserted newId)"
    using u by (simp add: createIssue_def Let_def)
  from full prem le r show ?thesis by auto
qed

text \<open>
  \<open>cara\<close> has three issues and is rejected; the premium \<open>pat\<close> has three and
  creates a fourth.
\<close>

theorem quota_rules_witness:
  "(let three = [mkIssue idA ''cara'' ''pending'' None, mkIssue idC ''cara'' ''resolved'' None,
                 mkIssue idD ''cara'' ''pending'' None];
        mine = [mkIssue idA ''pat'' ''pending'' None, mkIssue idC ''pat'' ''resolved'' None,
                mkIssue idD ''pat'' ''pending'' None]
    in openIssues ''cara'' three = 3 \<and> countDocuments ''cara'' three = 3 \<and>
       postIssue 9 (tok ''cara'') idB emptyBody (world three) =
         (world three, (403, Message ''Free user limit reached. Upgrade to premium.'')) \<and>
       countDocuments ''pat'' mine = 3 \<and>
       snd (postIssue 9 (tok ''pat'') idB emptyBody (world mine)) = (200, Inserted idB))"
proof -
  let ?three = "[mkIssue idA ''cara'' ''pending'' None, mkIssue idC ''cara'' ''resolved'' None,
                 mkIssue idD ''cara'' ''pending'' None]"
  let ?mine = "[mkIssue idA ''pat'' ''pending'' None, mkIssue idC ''pat'' ''resolved'' None,
                mkIssue idD ''pat'' ''pending'' None]"
  let ?cara = "\<lparr>a_email = ''cara'', a_uid = ''uid-cara'', a_role = ''citizen'', a_isBlocked = False,
            a_isPremium = False\<rparr>"
  let ?pat = "\<lparr>a_email = ''pat'', a_uid = ''uid-pat'', a_role = ''citizen'', a_isBlocked = False,
            a_isPremium = True\<rparr>"
  have a: "verifyToken 9 (tok ''cara'') (world ?three) = Inr (?cara, world ?three)"
    by (rule verify_cara)
  have b: "verifyToken 9 (tok ''pat'') (world ?mine) = Inr (?pat, world ?mine)"
    by (rule verify_pat)
  have nb: "\<not> a_isBlocked ?cara" "\<not> a_isBlocked ?pat" by simp_all
  have c: "countDocuments ''cara'' ?three = 3" "countDocuments ''pat'' ?mine = 3"
    by (simp_all add: countDocuments_def mkIssue_def)
  from quota_rules [OF a nb(1), of idB emptyBody] c(1)
  have 1: "postIssue 9 (tok ''cara'') idB emptyBody (world ?three) =
         (world ?three, (403, Message ''Free user limit reached. Upgrade to premium.''))"
    by (simp add: world_def)
  from quota_rules [OF b nb(2), of idB emptyBody]
  have 2: "snd (postIssue 9 (tok ''pat'') idB emptyBody (world ?mine)) = (200, Inserted idB)"
    by simp
  have o: "openIssues ''cara'' ?three = 3"
    by (simp add: openIssues_def mkIssue_def)
  from 1 2 c o show ?thesis by (simp add: Let_def)
qed

subsection \<open>Assignment\<close>

text \<open>
  C7. For every assignment request of an admin on an existing issue, with a staff e-mail
  in the body: when no user record has that e-mail and the role \<open>staff\<close> the reply
  is 404 (staff not found) and nothing changes; otherwise the request succeeds, the
  issue's \<open>assignedStaff\<close> is that e-mail, its status is \<open>in-progress\<close>, and one
  timeline entry is written.
\<close>

theorem assign_rules:
  assumes "verifyToken now cred st = Inr (ru, st1)" and "a_role ru = ''admin''"
    and "isValidObjectId i" and "findIssue i (issues st) = Some x" and "se \<noteq> []"
  shows "(\<not> (\<exists>u \<in> set (users st1). email u = se \<and> role u = ''staff'') \<longrightarrow>
            patchAssign now cred i (Some se) st = (st1, (404, Message ''Staff not found''))) \<and>
         ((\<exists>u \<in> set (users st1). email u = se \<and> role u = ''staff'') \<longrightarrow>
            (\<exists>st' n. patchAssign now cred i (Some se) st = (st', (200, Modified n)) \<and>
               findIssue i (issues st') =
                 Some (x\<lparr>assignedStaff := Some se, status := JStr ''in-progress'', assignedAt := Some now\<rparr>) \<and>
               timeline st' = timeline st @
                 [\<lparr>t_issueId = i, t_status = JStr ''in-progress'', t_message = ''Assigned to staff '' @ se,
                   t_updatedBy = a_email ru, t_time = now\<rparr>]))"
proof -
  have i: "issues st1 = issues st" "timeline st1 = timeline st"
    using assms(1) by (rule verifyToken_rest)+
  have r: "patchAssign now cred i (Some se) st = assignIssue now i (Some se) ru st1"
    using assms(1,2) by (simp add: patchAssign_def route_authed requireRole_def)
  let ?f = "\<lambda>d. d\<lparr>assignedStaff := Some se, status := JStr ''in-progress'', assignedAt := Some now\<rparr>"
  have upd: "findIssue i (updateOne i ?f (issues st)) = Some (?f x)"
    using assms(4) by (simp add: findIssue_updateOne_same)
  have none: "findStaff se (users st1) = None \<Longrightarrow>
      assignIssue now i (Some se) ru st1 = (st1, (404, Message ''Staff not found''))"
    using assms(3,5) by (simp add: assignIssue_def)
  have some: "findStaff se (users st1) \<noteq> None \<Longrightarrow>
      (\<exists>st' n. assignIssue now i (Some se) ru st1 = (st', (200, Modified n)) \<and>
               findIssue i (issues st') = Some (?f x) \<and>
               timeline st' = timeline st @
                 [\<lparr>t_issueId = i, t_status = JStr ''in-progress'', t_message = ''Assigned to staff '' @ se,
                   t_updatedBy = a_email ru, t_time = now\<rparr>])"
    using assms(3,4,5) i upd by (auto simp add: assignIssue_def Let_def)
  from none some r show ?thesis
    by (simp add: findStaff_None_iff)
qed

text \<open>
  The admin assigns a pending issue to the citizen \<open>cara\<close> (not found) and to the
  staff member \<open>sam\<close> (assigned, in progress).
\<close>

theorem assign_rules_witness:
  "(let w = world [mkIssue idA ''cara'' ''pending'' None]
    in isValidObjectId idA \<and>
       findIssue idA (issues w) = Some (mkIssue idA ''cara'' ''pending'' None) \<and>
       patchAssign 3 (tok ''ada'') idA (Some ''cara'') w = (w, (404, Message ''Staff not found'')) \<and>
       (\<exists>st' n. patchAssign 3 (tok ''ada'') idA (Some ''sam'') w = (st', (200, Modified n)) \<and>
          findIssue idA (issues st') =
            Some ((mkIssue idA ''cara'' ''in-progress'' (Some ''sam''))\<lparr>assignedAt := Some 3\<rparr>) \<and>
          timeline st' =
            [\<lparr>t_issueId = idA, t_status = JStr ''in-progress'', t_message = ''Assigned to staff sam'',
              t_updatedBy = ''ada'', t_time = 3\<rparr>]))"
proof -
  let ?w = "world [mkIssue idA ''cara'' ''pending'' None]"
  let ?ada = "\<lparr>a_email = ''ada'', a_uid = ''uid-ada'', a_role = ''admin'', a_isBlocked = False,
            a_isPremium = False\<rparr>"
  have a: "verifyToken 3 (tok ''ada'') ?w = Inr (?ada, ?w)" by (rule verify_ada)
  have b: "a_role ?ada = ''admin''" by simp
  have c: "findIssue idA (issues ?w) = Some (mkIssue idA ''cara'' ''pending'' None)"
    by (simp add: world_def findIssue_def mkIssue_def)
  have d: "''cara'' \<noteq> []" "''sam'' \<noteq> []" by simp_all
  have no: "\<not> (\<exists>u \<in> set (users ?w). email u = ''cara'' \<and> role u = ''staff'')"
    by (simp add: world_def people_def mkUser_def)
  have yes: "\<exists>u \<in> set (users ?w). email u = ''sam'' \<and> role u = ''staff''"
    by (simp add: world_def people_def mkUser_def)
  from assign_rules [OF a b isValid_idA c d(1)] no
  have 1: "patchAssign 3 (tok ''ada'') idA (Some ''cara'') ?w = (?w, (404, Message ''Staff not found''))"
    by blast
  from assign_rules [OF a b isValid_idA c d(2)] yes
  have 2: "\<exists>st' n. patchAssign 3 (tok ''ada'') idA (Some ''sam'') ?w = (st', (200, Modified n)) \<and>
          findIssue idA (issues st') =
            Some ((mkIssue idA ''cara'' ''pending'' None)\<lparr>assignedStaff := Some ''sam'',
                   status := JStr ''in-progress'', assignedAt := Some 3\<rparr>) \<and>
          timeline st' = timeline ?w @
            [\<lparr>t_issueId = idA, t_status = JStr ''in-progress'', t_message = ''Assigned to staff '' @ ''sam'',
              t_updatedBy = a_email ?ada, t_time = 3\<rparr>]"
    by blast
  have 3: "(mkIssue idA ''cara'' ''pending'' None)\<lparr>assignedStaff := Some ''sam'',
                   status := JStr ''in-progress'', assignedAt := Some 3\<rparr> =
           (mkIssue idA ''cara'' ''in-progress'' (Some ''sam''))\<lparr>assignedAt := Some 3\<rparr>"
    by (simp add: mkIssue_def)
  have 4: "timeline ?w = []" by (simp add: world_def)
  from 1 2 c show ?thesis
    unfolding Let_def 3 4 using isValid_idA by simp
qed

subsection \<open>Boost\<close>

text \<open>
  C6. For every boost request of an authenticated caller who is not blocked, with a
  payment id and an amount, on an existing issue: when the issue is already boosted or
  its priority is already \<open>high\<close> the reply is 400 (already boosted) and the payment
  ledger is unchanged; otherwise the boost succeeds, records exactly one payment with
  purpose \<open>issue_boost\<close>, sets the priority to \<open>high\<close> and \<open>isBoosted\<close>, and
  writes a timeline entry; and every later boost of that issue is answered with
  already boosted, the ledger holding exactly the one new payment of the two attempts.
\<close>

theorem boost_rules:
  assumes "verifyToken now cred st = Inr (ru, st1)" and "\<not> a_isBlocked ru"
    and "isValidObjectId i" and "findIssue i (issues st) = Some x"
    and "pid \<noteq> []" and "amt \<noteq> 0"
  shows "(isBoosted x \<or> priority x = JStr ''high'' \<longrightarrow>
            postBoost now cred i (Some pid) (Some amt) st =
              (st1, (400, Message ''Issue already boosted'')) \<and>
            payments st1 = payments st) \<and>
         (\<not> isBoosted x \<and> priority x \<noteq> JStr ''high'' \<longrightarrow>
            (\<exists>st2. postBoost now cred i (Some pid) (Some amt) st = (st2, (200, Modified 1)) \<and>
               payments st2 = payments st @
                 [\<lparr>p_issueId = i, p_userEmail = a_email ru, p_paymentId = pid, p_amount = amt,
                   p_purpose = ''issue_boost'', p_date = now\<rparr>] \<and>
               findIssue i (issues st2) = Some (x\<lparr>priority := JStr ''high'', isBoosted := True\<rparr>) \<and>
               timeline st2 = timeline st @
                 [\<lparr>t_issueId = i, t_status = JStr ''boosted'', t_message = ''Priority boosted via payment'',
                   t_updatedBy = a_email ru, t_time = now\<rparr>] \<and>
               (\<forall>now' pid' amt'. pid' \<noteq> [] \<and> amt' \<noteq> 0 \<longrightarrow>
                  (\<exists>st3. postBoost now' cred i (Some pid') (Some amt') st2 =
                            (st3, (400, Message ''Issue already boosted'')) \<and>
                     payments st3 = payments st @
                       [\<lparr>p_issueId = i, p_userEmail = a_email ru, p_paymentId = pid, p_amount = amt,
                         p_purpose = ''issue_boost'', p_date = now\<rparr>]))))"
proof -
  have i: "issues st1 = issues st" "timeline st1 = timeline st" "payments st1 = payments st"
    using assms(1) by (rule verifyToken_rest)+
  have r: "\<And>n p a s. verifyToken n cred s = Inr (ru, s) \<Longrightarrow>
             postBoost n cred i p a s = boostIssue n i p a ru s"
    using assms(2) by (simp add: postBoost_def route_authed checkBlocked_def)
  have r1: "postBoost now cred i (Some pid) (Some amt) st = boostIssue now i (Some pid) (Some amt) ru st1"
    using assms(1,2) by (simp add: postBoost_def route_authed checkBlocked_def)
  let ?f = "\<lambda>d. d\<lparr>priority := JStr ''high'', isBoosted := True\<rparr>"
  let ?pay = "\<lparr>p_issueId = i, p_userEmail = a_email ru, p_paymentId = pid, p_amount = amt,
                   p_purpose = ''issue_boost'', p_date = now\<rparr>"
  let ?ent = "\<lparr>t_issueId = i, t_status = JStr ''boosted'', t_message = ''Priority boosted via payment'',
                   t_updatedBy = a_email ru, t_time = now\<rparr>"
  let ?st2 = "st1\<lparr>payments := payments st1 @ [?pay], issues := updateOne i ?f (issues st1),
                  timeline := timeline st1 @ [?ent]\<rparr>"
  have upd: "findIssue i (updateOne i ?f (issues st)) = Some (?f x)"
    using assms(4) by (simp add: findIssue_updateOne_same)
  have already: "isBoosted x \<or> priority x = JStr ''high'' \<Longrightarrow>
      boostIssue now i (Some pid) (Some amt) ru st1 = (st1, (400, Message ''Issue already boosted''))"
    using assms(3-6) i by (auto simp add: boostIssue_def)
  have changed: "?f x \<noteq> x" if "\<not> isBoosted x"
  proof
    assume "?f x = x"
    then have "isBoosted (?f x) = isBoosted x" by (rule arg_cong)
    with that show False by simp
  qed
  have fresh: "\<not> isBoosted x \<Longrightarrow> priority x \<noteq> JStr ''high'' \<Longrightarrow>
      boostIssue now i (Some pid) (Some amt) ru st1 = (?st2, (200, Modified 1))"
    using assms(3-6) i changed by (simp add: boostIssue_def Let_def modifiedCount_def)
  have again: "\<And>now' pid' amt'. pid' \<noteq> [] \<Longrightarrow> amt' \<noteq> 0 \<Longrightarrow>
      postBoost now' cred i (Some pid') (Some amt') ?st2 = (?st2, (400, Message ''Issue already boosted''))"
  proof -
    fix now' pid' amt' assume p: "pid' \<noteq> ([]::string)" "amt' \<noteq> (0::int)"
    have v: "verifyToken now' cred ?st2 = Inr (ru, ?st2)"
      using assms(1) by (rule verifyToken_again) simp
    have "boostIssue now' i (Some pid') (Some amt') ru ?st2 = (?st2, (400, Message ''Issue already boosted''))"
      using p assms(3) upd i by (simp add: boostIssue_def)
    with r [OF v] show "postBoost now' cred i (Some pid') (Some amt') ?st2 = (?st2, (400, Message ''Issue already boosted''))"
      by simp
  qed
  have A: "isBoosted x \<or> priority x = JStr ''high'' \<longrightarrow>
            postBoost now cred i (Some pid) (Some amt) st =
              (st1, (400, Message ''Issue already boosted'')) \<and>
            payments st1 = payments st"
    using already r1 i by simp
  have B: "\<not> isBoosted x \<and> priority x \<noteq> JStr ''high'' \<longrightarrow>
            (\<exists>st2. postBoost now cred i (Some pid) (Some amt) st = (st2, (200, Modified 1)) \<and>
               payments st2 = payments st @ [?pay] \<and>
               findIssue i (issues st2) = Some (x\<lparr>priority := JStr ''high'', isBoosted := True\<rparr>) \<and>
               timeline st2 = timeline st @ [?ent] \<and>
               (\<forall>now' pid' amt'. pid' \<noteq> [] \<and> amt' \<noteq> 0 \<longrightarrow>
                  (\<exists>st3. postBoost now' cred i (Some pid') (Some amt') st2 =
                            (st3, (400, Message ''Issue already boosted'')) \<and>
                     payments st3 = payments st @ [?pay])))"
  proof (intro impI, elim conjE)
    assume nb: "\<not> isBoosted x" "priority x \<noteq> JStr ''high''"
    show "\<exists>st2. postBoost now cred i (Some pid) (Some amt) st = (st2, (200, Modified 1)) \<and>
               payments st2 = payments st @ [?pay] \<and>
               findIssue i (issues st2) = Some (x\<lparr>priority := JStr ''high'', isBoosted := True\<rparr>) \<and>
               timeline st2 = timeline st @ [?ent] \<and>
               (\<forall>now' pid' amt'. pid' \<noteq> [] \<and> amt' \<noteq> 0 \<longrightarrow>
                  (\<exists>st3. postBoost now' cred i (Some pid') (Some amt') st2 =
                            (st3, (400, Message ''Issue already boosted'')) \<and>
                     payments st3 = payments st @ [?pay]))"
    proof -
      have 1: "postBoost now cred i (Some pid) (Some amt) st = (?st2, (200, Modified 1))"
        using fresh [OF nb] r1 by simp
      have 2: "payments ?st2 = payments st @ [?pay]" using i by simp
      have 3: "findIssue i (issues ?st2) = Some (x\<lparr>priority := JStr ''high'', isBoosted := True\<rparr>)"
        using upd i by simp
      have 4: "timeline ?st2 = timeline st @ [?ent]" using i by simp
      have 5: "\<forall>now' pid' amt'. pid' \<noteq> [] \<and> amt' \<noteq> 0 \<longrightarrow>
                  (\<exists>st3. postBoost now' cred i (Some pid') (Some amt') ?st2 =
                            (st3, (400, Message ''Issue already boosted'')) \<and>
                     payments st3 = payments st @ [?pay])"
        using again 2 by blast
      from 1 2 3 4 5 show ?thesis by blast
    qed
  qed
  from A B show ?thesis by blast
qed

text \<open>\<open>cara\<close> boosts their issue twice: one payment, one rejection.\<close>

theorem boost_rules_witness:
  "(let w = world [mkIssue idA ''cara'' ''pending'' None]
    in isValidObjectId idA \<and>
       findIssue idA (issues w) = Some (mkIssue idA ''cara'' ''pending'' None) \<and>
       (\<exists>st2 st3.
          postBoost 4 (tok ''cara'') idA (Some ''pi_1'') (Some 100) w = (st2, (200, Modified 1)) \<and>
          findIssue idA (issues st2) =
            Some ((mkIssue idA ''cara'' ''pending'' None)\<lparr>priority := JStr ''high'', isBoosted := True\<rparr>) \<and>
          postBoost 5 (tok ''cara'') idA (Some ''pi_2'') (Some 100) st2 =
            (st3, (400, Message ''Issue already boosted'')) \<and>
          payments st3 =
            [\<lparr>p_issueId = idA, p_userEmail = ''cara'', p_paymentId = ''pi_1'', p_amount = 100,
              p_purpose = ''issue_boost'', p_date = 4\<rparr>]))"
proof -
  let ?x = "mkIssue idA ''cara'' ''pending'' None"
  let ?w = "world [?x]"
  let ?cara = "\<lparr>a_email = ''cara'', a_uid = ''uid-cara'', a_role = ''citizen'', a_isBlocked = False,
            a_isPremium = False\<rparr>"
  have a: "verifyToken 4 (tok ''cara'') ?w = Inr (?cara, ?w)" by (rule verify_cara)
  have b: "\<not> a_isBlocked ?cara" by simp
  have c: "findIssue idA (issues ?w) = Some ?x"
    by (simp add: world_def findIssue_def mkIssue_def)
  have d: "''pi_1'' \<noteq> []" "(100::int) \<noteq> 0" by simp_all
  have e: "\<not> isBoosted ?x \<and> priority ?x \<noteq> JStr ''high''" by (simp add: mkIssue_def)
  have f: "payments ?w = []" by (simp add: world_def)
  from boost_rules [OF a b isValid_idA c d] e obtain st2 where
    1: "postBoost 4 (tok ''cara'') idA (Some ''pi_1'') (Some 100) ?w = (st2, (200, Modified 1))"
    and 2: "findIssue idA (issues st2) = Some (?x\<lparr>priority := JStr ''high'', isBoosted := True\<rparr>)"
    and 3: "\<forall>now' pid' amt'. pid' \<noteq> [] \<and> amt' \<noteq> 0 \<longrightarrow>
             (\<exists>st3. postBoost now' (tok ''cara'') idA (Some pid') (Some amt') st2 =
                       (st3, (400, Message ''Issue already boosted'')) \<and>
                payments st3 = payments ?w @
                  [\<lparr>p_issueId = idA, p_userEmail = a_email ?cara, p_paymentId = ''pi_1'',
                    p_amount = 100, p_purpose = ''issue_boost'', p_date = 4\<rparr>])"
    by blast
  have "''pi_2'' \<noteq> [] \<and> (100::int) \<noteq> 0" by simp
  with 3 obtain st3 where
    4: "postBoost 5 (tok ''cara'') idA (Some ''pi_2'') (Some 100) st2 =
          (st3, (400, Message ''Issue already boosted''))"
    and 5: "payments st3 = payments ?w @
                  [\<lparr>p_issueId = idA, p_userEmail = a_email ?cara, p_paymentId = ''pi_1'',
                    p_amount = 100, p_purpose = ''issue_boost'', p_date = 4\<rparr>]"
    by blast
  from 5 f have 6: "payments st3 =
            [\<lparr>p_issueId = idA, p_userEmail = ''cara'', p_paymentId = ''pi_1'', p_amount = 100,
              p_purpose = ''issue_boost'', p_date = 4\<rparr>]"
    by simp
  from 1 2 4 6 c isValid_idA show ?thesis unfolding Let_def by blast
qed

subsection \<open>Creation\<close>

text \<open>
  C4, as the code has it. For every successful issue creation the stored issue has the
  status the body carries when that is truthy (a value of any JSON type) and
  \<open>pending\<close> otherwise, the priority the body carries when truthy or \<open>normal\<close>,
  the upvotes the body carries when truthy or 0, the upvoters the body carries when
  truthy or the empty array; its reporter, its \<open>reportedAt\<close> and
  \<open>isHidden = false\<close> are set by the server whatever the body carries; and exactly
  one timeline entry, with the message \<open>Issue reported\<close> and the stored status, is
  appended for the new issue's id.
\<close>

theorem create_stores:
  assumes "verifyToken now cred st = Inr (ru, st1)"
    and "postIssue now cred newId body st = (st', (200, p))"
  shows "\<exists>x. issues st' = issues st @ [x] \<and> iid x = newId \<and>
           reporterEmail x = a_email ru \<and> userEmail x = a_email ru \<and>
           status x = (case b_status body of None \<Rightarrow> JStr ''pending''
                       | Some v \<Rightarrow> if truthy v then v else JStr ''pending'') \<and>
           priority x = (case b_priority body of None \<Rightarrow> JStr ''normal''
                         | Some v \<Rightarrow> if truthy v then v else JStr ''normal'') \<and>
           upvotes x = (case b_upvotes body of None \<Rightarrow> JNum 0
                        | Some v \<Rightarrow> if truthy v then v else JNum 0) \<and>
           upvoters x = (case b_upvoters body of None \<Rightarrow> JArr []
                         | Some v \<Rightarrow> if truthy v then v else JArr []) \<and>
           reportedAt x = now \<and> isHidden x = False \<and>
           timeline st' = timeline st @
             [\<lparr>t_issueId = newId, t_status = status x, t_message = ''Issue reported'',
               t_updatedBy = a_email ru, t_time = now\<rparr>]"
proof -
  have i: "issues st1 = issues st" "timeline st1 = timeline st"
    using assms(1) by (rule verifyToken_rest)+
  have nb: "\<not> a_isBlocked ru"
    using assms by (auto simp: postIssue_def route_authed checkBlocked_def split: if_splits)
  then have r: "createIssue now newId body ru st1 = (st', (200, p))"
    using assms by (simp add: postIssue_def route_authed checkBlocked_def)
  let ?x = "\<lparr>iid = newId, reporterEmail = a_email ru, userEmail = a_email ru,
             title = b_title body, description = b_description body,
             location = b_location body, category = b_category body,
             status = orJ (b_status body) (JStr ''pending''),
             priority = orJ (b_priority body) (JStr ''normal''), reportedAt = now,
             upvotes = orJ (b_upvotes body) (JNum 0),
             upvoters = orJ (b_upvoters body) (JArr []),
             isHidden = False,
             isBoosted = (case b_isBoosted body of None \<Rightarrow> False | Some v \<Rightarrow> truthy v),
             assignedStaff = b_assignedStaff body, assignedAt = b_assignedAt body\<rparr>"
  have s: "st' = st1\<lparr>issues := issues st1 @ [?x],
                       timeline := timeline st1 @
                         [\<lparr>t_issueId = newId, t_status = status ?x, t_message = ''Issue reported'',
                           t_updatedBy = a_email ru, t_time = now\<rparr>]\<rparr>"
    using r by (simp add: createIssue_def Let_def split: if_splits)
  have f: "status ?x = (case b_status body of None \<Rightarrow> JStr ''pending''
                        | Some v \<Rightarrow> if truthy v then v else JStr ''pending'')"
    "priority ?x = (case b_priority body of None \<Rightarrow> JStr ''normal''
                        | Some v \<Rightarrow> if truthy v then v else JStr ''normal'')"
    "upvotes ?x = (case b_upvotes body of None \<Rightarrow> JNum 0
                        | Some v \<Rightarrow> if truthy v then v else JNum 0)"
    "upvoters ?x = (case b_upvoters body of None \<Rightarrow> JArr []
                         | Some v \<Rightarrow> if truthy v then v else JArr [])"
    by (simp_all add: orJ_def)
  have g: "issues st' = issues st @ [?x]"
    "timeline st' = timeline st @
       [\<lparr>t_issueId = newId, t_status = status ?x, t_message = ''Issue reported'',
         t_updatedBy = a_email ru, t_time = now\<rparr>]"
    using s i by simp_all
  have h: "iid ?x = newId" "reporterEmail ?x = a_email ru" "userEmail ?x = a_email ru"
    "reportedAt ?x = now" "isHidden ?x = False"
    by simp_all
  from f g h show ?thesis by blast
qed

text \<open>
  In a store that holds an issue already: a body with the status \<open>resolved\<close>, the
  priority 5, 7 upvotes, one upvoter, and a reporter, a \<open>reportedAt\<close> and an
  \<open>isHidden\<close> of its own is stored with the first four as sent and the last three
  set by the server; a body with falsy values for the four is stored with the defaults.
\<close>

theorem create_stores_witness:
  "(let old = mkIssue idA ''pat'' ''resolved'' None; w = world [old];
        sent = emptyBody\<lparr>b_reporterEmail := Some ''zed'', b_status := Some (JStr ''resolved''),
                           b_priority := Some (JNum 5), b_reportedAt := Some 0,
                           b_upvotes := Some (JNum 7), b_upvoters := Some (JArr [JStr ''zed'']),
                           b_isHidden := Some (JBool True)\<rparr>;
        falsy = emptyBody\<lparr>b_status := Some (JStr []), b_priority := Some (JBool False),
                            b_upvotes := Some (JNum 0), b_upvoters := Some JNull\<rparr>
    in (\<exists>st' x. postIssue 2 (tok ''cara'') idB sent w = (st', (200, Inserted idB)) \<and>
          issues st' = [old, x] \<and> iid x = idB \<and> reporterEmail x = ''cara'' \<and>
          status x = JStr ''resolved'' \<and> priority x = JNum 5 \<and> upvotes x = JNum 7 \<and>
          upvoters x = JArr [JStr ''zed''] \<and> reportedAt x = 2 \<and> isHidden x = False \<and>
          timeline st' =
            [\<lparr>t_issueId = idB, t_status = JStr ''resolved'', t_message = ''Issue reported'',
              t_updatedBy = ''cara'', t_time = 2\<rparr>]) \<and>
       (\<exists>st' x. postIssue 3 (tok ''cara'') idB falsy w = (st', (200, Inserted idB)) \<and>
          issues st' = [old, x] \<and> status x = JStr ''pending'' \<and> priority x = JStr ''normal'' \<and>
          upvotes x = JNum 0 \<and> upvoters x = JArr [] \<and> reportedAt x = 3))"
proof -
  let ?old = "mkIssue idA ''pat'' ''resolved'' None"
  let ?w = "world [?old]"
  let ?sent = "emptyBody\<lparr>b_reporterEmail := Some ''zed'', b_status := Some (JStr ''resolved''),
                           b_priority := Some (JNum 5), b_reportedAt := Some 0,
                           b_upvotes := Some (JNum 7), b_upvoters := Some (JArr [JStr ''zed'']),
                           b_isHidden := Some (JBool True)\<rparr>"
  let ?falsy = "emptyBody\<lparr>b_status := Some (JStr []), b_priority := Some (JBool False),
                            b_upvotes := Some (JNum 0), b_upvoters := Some JNull\<rparr>"
  let ?cara = "\<lparr>a_email = ''cara'', a_uid = ''uid-cara'', a_role = ''citizen'', a_isBlocked = False,
            a_isPremium = False\<rparr>"
  have e: "issues ?w = [?old]" "timeline ?w = []" by (simp_all add: world_def)
  have va: "verifyToken 2 (tok ''cara'') ?w = Inr (?cara, ?w)" by (rule verify_cara)
  have vb: "verifyToken 3 (tok ''cara'') ?w = Inr (?cara, ?w)" by (rule verify_cara)
  have ok: "snd (postIssue n (tok ''cara'') idB b ?w) = (200, Inserted idB)" for n b
    unfolding postIssue_def route_authed [OF verify_cara]
    by (simp add: checkBlocked_def createIssue_def Let_def findUser_def world_def people_def
        mkUser_def countDocuments_def mkIssue_def)
  obtain sa where ra: "postIssue 2 (tok ''cara'') idB ?sent ?w = (sa, (200, Inserted idB))"
    using ok [of 2 ?sent] by (cases "postIssue 2 (tok ''cara'') idB ?sent ?w") auto
  obtain sb where rb: "postIssue 3 (tok ''cara'') idB ?falsy ?w = (sb, (200, Inserted idB))"
    using ok [of 3 ?falsy] by (cases "postIssue 3 (tok ''cara'') idB ?falsy ?w") auto
  from create_stores [OF va ra] obtain x where
    x: "issues sa = issues ?w @ [x]" "iid x = idB" "reporterEmail x = a_email ?cara"
      "status x = (case b_status ?sent of None \<Rightarrow> JStr ''pending''
                   | Some v \<Rightarrow> if truthy v then v else JStr ''pending'')"
      "priority x = (case b_priority ?sent of None \<Rightarrow> JStr ''normal''
                     | Some v \<Rightarrow> if truthy v then v else JStr ''normal'')"
      "upvotes x = (case b_upvotes ?sent of None \<Rightarrow> JNum 0
                    | Some v \<Rightarrow> if truthy v then v else JNum 0)"
      "upvoters x = (case b_upvoters ?sent of None \<Rightarrow> JArr []
                     | Some v \<Rightarrow> if truthy v then v else JArr [])"
      "reportedAt x = 2" "isHidden x = False"
      "timeline sa = timeline ?w @
             [\<lparr>t_issueId = idB, t_status = status x, t_message = ''Issue reported'',
               t_updatedBy = a_email ?cara, t_time = 2\<rparr>]"
    by blast
  from create_stores [OF vb rb] obtain y where
    y: "issues sb = issues ?w @ [y]"
      "status y = (case b_status ?falsy of None \<Rightarrow> JStr ''pending''
                   | Some v \<Rightarrow> if truthy v then v else JStr ''pending'')"
      "priority y = (case b_priority ?falsy of None \<Rightarrow> JStr ''normal''
                     | Some v \<Rightarrow> if truthy v then v else JStr ''normal'')"
      "upvotes y = (case b_upvotes ?falsy of None \<Rightarrow> JNum 0
                    | Some v \<Rightarrow> if truthy v then v else JNum 0)"
      "upvoters y = (case b_upvoters ?falsy of None \<Rightarrow> JArr []
                     | Some v \<Rightarrow> if truthy v then v else JArr [])"
      "reportedAt y = 3"
    by blast
  have A: "\<exists>st' x. postIssue 2 (tok ''cara'') idB ?sent ?w = (st', (200, Inserted idB)) \<and>
          issues st' = [?old, x] \<and> iid x = idB \<and> reporterEmail x = ''cara'' \<and>
          status x = JStr ''resolved'' \<and> priority x = JNum 5 \<and> upvotes x = JNum 7 \<and>
          upvoters x = JArr [JStr ''zed''] \<and> reportedAt x = 2 \<and> isHidden x = False \<and>
          timeline st' =
            [\<lparr>t_issueId = idB, t_status = JStr ''resolved'', t_message = ''Issue reported'',
              t_updatedBy = ''cara'', t_time = 2\<rparr>]"
    using ra x e by (intro exI [of _ sa] exI [of _ x]) (simp add: emptyBody_def)
  have B: "\<exists>st' x. postIssue 3 (tok ''cara'') idB ?falsy ?w = (st', (200, Inserted idB)) \<and>
          issues st' = [?old, x] \<and> status x = JStr ''pending'' \<and> priority x = JStr ''normal'' \<and>
          upvotes x = JNum 0 \<and> upvoters x = JArr [] \<and> reportedAt x = 3"
    using rb y e by (intro exI [of _ sb] exI [of _ y]) (simp add: emptyBody_def)
  from A B show ?thesis unfolding Let_def by blast
qed

text \<open>
  The claim that client-supplied values of these fields are ignored fails: a body with
  status \<open>resolved\<close>, priority \<open>high\<close>, 7 upvotes and one upvoter is stored with
  exactly these values.
\<close>

theorem create_keeps_client_values:
  "(let body = emptyBody\<lparr>b_status := Some (JStr ''resolved''), b_priority := Some (JStr ''high''),
                          b_upvotes := Some (JNum 7), b_upvoters := Some (JArr [JStr ''zed''])\<rparr>;
        res = postIssue 2 (tok ''cara'') idA body (world [])
    in snd res = (200, Inserted idA) \<and>
       (\<exists>x. findIssue idA (issues (fst res)) = Some x \<and>
          status x = JStr ''resolved'' \<and> status x \<noteq> JStr ''pending'' \<and>
          priority x = JStr ''high'' \<and> priority x \<noteq> JStr ''normal'' \<and>
          upvotes x = JNum 7 \<and> upvotes x \<noteq> JNum 0 \<and>
          upvoters x = JArr [JStr ''zed''] \<and> upvoters x \<noteq> JArr []))"
  unfolding Let_def postIssue_def route_authed [OF verify_cara]
  by (simp add: checkBlocked_def createIssue_def findUser_def world_def people_def mkUser_def
      countDocuments_def emptyBody_def orJ_def findIssue_def)

subsection \<open>Deletion\<close>

text \<open>
  C5, as the code has it. For every authenticated delete request on an existing issue
  the deletion succeeds if and only if the caller is the reporter and the issue is
  pending, or the caller is not the reporter and has the role admin. A successful
  deletion removes the issue document (one document fewer; with unique ids no document
  has the id afterwards) and appends exactly one timeline entry, keyed to the deleted
  issue's id, recording the deletion; a failed one changes no issue. In particular a
  reporter who is not admin cannot delete a resolved issue.
\<close>

theorem delete_rules:
  assumes "verifyToken now cred st = Inr (ru, st1)"
    and "isValidObjectId i" and "findIssue i (issues st) = Some x"
  shows "(fst (snd (deleteIssueRoute now cred i st)) = 200 \<longleftrightarrow>
            (a_email ru = reporterEmail x \<and> status x = JStr ''pending'') \<or>
            (a_email ru \<noteq> reporterEmail x \<and> a_role ru = ''admin'')) \<and>
         (fst (snd (deleteIssueRoute now cred i st)) = 200 \<longrightarrow>
            issues (fst (deleteIssueRoute now cred i st)) = deleteOne i (issues st) \<and>
            Suc (length (issues (fst (deleteIssueRoute now cred i st)))) = length (issues st) \<and>
            (distinct (map iid (issues st)) \<longrightarrow>
               findIssue i (issues (fst (deleteIssueRoute now cred i st))) = None) \<and>
            timeline (fst (deleteIssueRoute now cred i st)) = timeline st @
              [\<lparr>t_issueId = i, t_status = JStr ''deleted'', t_message = ''Issue deleted by '' @ a_email ru,
                t_updatedBy = a_email ru, t_time = now\<rparr>]) \<and>
         (fst (snd (deleteIssueRoute now cred i st)) \<noteq> 200 \<longrightarrow>
            fst (deleteIssueRoute now cred i st) = st1 \<and> issues st1 = issues st)"
proof -
  have i: "issues st1 = issues st" "timeline st1 = timeline st"
    using assms(1) by (rule verifyToken_rest)+
  from verifyToken_user [OF assms(1)] obtain usr where
    u: "findUser (a_email ru) (users st1) = Some usr" "role usr = a_role ru" by blast
  have r: "deleteIssueRoute now cred i st = deleteIssue now i ru st1"
    using assms(1) by (simp add: deleteIssueRoute_def route_authed)
  have len: "Suc (length (deleteOne i (issues st))) = length (issues st)"
    using assms(3) by (rule length_deleteOne)
  have gone: "distinct (map iid (issues st)) \<longrightarrow> findIssue i (deleteOne i (issues st)) = None"
    by (simp add: findIssue_deleteOne_distinct)
  show ?thesis
    unfolding r using assms(2,3) i u len gone
    by (simp add: deleteIssue_def removeIssue_def)
qed

text \<open>
  \<open>cara\<close> deletes her pending issue; her resolved issue she cannot delete.
\<close>

theorem delete_rules_witness:
  "(let w = world [mkIssue idA ''cara'' ''pending'' None, mkIssue idB ''cara'' ''resolved'' None]
    in findIssue idA (issues w) = Some (mkIssue idA ''cara'' ''pending'' None) \<and>
       findIssue idB (issues w) = Some (mkIssue idB ''cara'' ''resolved'' None) \<and>
       fst (snd (deleteIssueRoute 8 (tok ''cara'') idA w)) = 200 \<and>
       issues (fst (deleteIssueRoute 8 (tok ''cara'') idA w)) = [mkIssue idB ''cara'' ''resolved'' None] \<and>
       findIssue idA (issues (fst (deleteIssueRoute 8 (tok ''cara'') idA w))) = None \<and>
       timeline (fst (deleteIssueRoute 8 (tok ''cara'') idA w)) =
         [\<lparr>t_issueId = idA, t_status = JStr ''deleted'', t_message = ''Issue deleted by cara'',
           t_updatedBy = ''cara'', t_time = 8\<rparr>] \<and>
       fst (snd (deleteIssueRoute 8 (tok ''cara'') idB w)) \<noteq> 200 \<and>
       fst (deleteIssueRoute 8 (tok ''cara'') idB w) = w)"
proof -
  let ?a = "mkIssue idA ''cara'' ''pending'' None"
  let ?b = "mkIssue idB ''cara'' ''resolved'' None"
  let ?w = "world [?a, ?b]"
  let ?cara = "\<lparr>a_email = ''cara'', a_uid = ''uid-cara'', a_role = ''citizen'', a_isBlocked = False,
            a_isPremium = False\<rparr>"
  have v: "verifyToken 8 (tok ''cara'') ?w = Inr (?cara, ?w)" by (rule verify_cara)
  have w: "issues ?w = [?a, ?b]" "timeline ?w = []" by (simp_all add: world_def)
  have ca: "findIssue idA (issues ?w) = Some ?a"
    by (simp add: world_def findIssue_def mkIssue_def)
  have cb: "findIssue idB (issues ?w) = Some ?b"
    using idA_neq_idB by (simp add: world_def findIssue_def mkIssue_def)
  have fa: "a_email ?cara = reporterEmail ?a \<and> status ?a = JStr ''pending''"
    by (simp add: mkIssue_def)
  have fb: "\<not> ((a_email ?cara = reporterEmail ?b \<and> status ?b = JStr ''pending'') \<or>
               (a_email ?cara \<noteq> reporterEmail ?b \<and> a_role ?cara = ''admin''))"
    by (simp add: mkIssue_def)
  have d: "distinct (map iid (issues ?w))"
    using idA_neq_idB by (simp add: world_def mkIssue_def)
  have del: "deleteOne idA (issues ?w) = [?b]"
    by (simp add: world_def mkIssue_def)
  note A = delete_rules [OF v isValid_idA ca]
  note B = delete_rules [OF v isValid_idB cb]
  from A fa have 1: "fst (snd (deleteIssueRoute 8 (tok ''cara'') idA ?w)) = 200" by blast
  with A d have 2: "issues (fst (deleteIssueRoute 8 (tok ''cara'') idA ?w)) = deleteOne idA (issues ?w)"
    and 3: "findIssue idA (issues (fst (deleteIssueRoute 8 (tok ''cara'') idA ?w))) = None"
    and 4: "timeline (fst (deleteIssueRoute 8 (tok ''cara'') idA ?w)) = timeline ?w @
              [\<lparr>t_issueId = idA, t_status = JStr ''deleted'',
                t_message = ''Issue deleted by '' @ a_email ?cara,
                t_updatedBy = a_email ?cara, t_time = 8\<rparr>]"
    by blast+
  from B fb have 5: "fst (snd (deleteIssueRoute 8 (tok ''cara'') idB ?w)) \<noteq> 200" by blast
  with B have 6: "fst (deleteIssueRoute 8 (tok ''cara'') idB ?w) = ?w" by blast
  from 4 have 7: "timeline (fst (deleteIssueRoute 8 (tok ''cara'') idA ?w)) =
         [\<lparr>t_issueId = idA, t_status = JStr ''deleted'', t_message = ''Issue deleted by cara'',
           t_updatedBy = ''cara'', t_time = 8\<rparr>]"
    by (simp add: world_def)
  from ca cb 1 2 3 5 6 7 del show ?thesis unfolding Let_def by simp
qed

text \<open>
  The claim that an admin's deletion always succeeds fails for an admin who is the
  reporter: the reporter branch is taken first and refuses an issue that is not
  pending.
\<close>

theorem admin_reporter_cannot_delete:
  "(let w = world [mkIssue idA ''ada'' ''resolved'' None]
    in map_option role (findUser ''ada'' (users w)) = Some ''admin'' \<and>
       findIssue idA (issues w) = Some (mkIssue idA ''ada'' ''resolved'' None) \<and>
       deleteIssueRoute 6 (tok ''ada'') idA w =
         (w, (400, Message ''Only pending issues can be deleted by reporter'')))"
  unfolding Let_def deleteIssueRoute_def route_authed [OF verify_ada]
  by (simp add: deleteIssue_def isValid_idA findIssue_def findUser_def world_def people_def
      mkUser_def mkIssue_def)

subsection \<open>Upvotes\<close>




subsection \<open>The reporter of an issue\<close>

text \<open>How a route and each handler other than the edit change the issues collection.\<close>

lemma route_issues:
  assumes "route now cred gs h st = (st', rep)"
  shows "issues st' = issues st \<or>
         (\<exists>ru st1 r. issues st1 = issues st \<and> h ru st1 = (st', r))"
proof (cases "verifyToken now cred st")
  case (Inl r)
  with assms show ?thesis by (simp add: route_def)
next
  case (Inr p)
  obtain ru st1 where p: "p = (ru, st1)" by (cases p)
  with Inr have v: "verifyToken now cred st = Inr (ru, st1)" by simp
  then have i: "issues st1 = issues st" by (rule verifyToken_rest)
  show ?thesis
  proof (cases "guards gs ru")
    case None
    with assms v have "h ru st1 = (st', rep)" by (simp add: route_authed)
    with i show ?thesis by blast
  next
    case (Some r)
    with assms v have "st' = st1" by (simp add: route_authed)
    with i show ?thesis by simp
  qed
qed

lemma createIssue_issues:
  "createIssue now newId body ru st = (st', rep) \<Longrightarrow>
     issues st' = issues st \<or> (\<exists>x. issues st' = issues st @ [x])"
  by (auto simp: createIssue_def Let_def split: if_splits)

lemma assignIssue_issues:
  "assignIssue now i se ru st = (st', rep) \<Longrightarrow>
     issues st' = issues st \<or>
     (\<exists>e. issues st' = updateOne i (\<lambda>d. d\<lparr>assignedStaff := Some e, status := JStr ''in-progress'',
                                            assignedAt := Some now\<rparr>) (issues st))"
  by (auto simp: assignIssue_def Let_def split: if_splits option.splits)

lemma upvoteIssue_issues:
  "upvoteIssue i ru st = (st', rep) \<Longrightarrow>
     issues st' = issues st \<or>
     (\<exists>e. issues st' = updateOne i (upvoted e) (issues st))"
  by (auto simp: upvoteIssue_def split: sum.splits bool.splits option.splits if_splits)

lemma updateStatus_issues:
  "updateStatus now i sn note ru st = (st', rep) \<Longrightarrow>
     issues st' = issues st \<or>
     (\<exists>s. issues st' = updateOne i (\<lambda>d. d\<lparr>status := JStr s\<rparr>) (issues st))"
  by (auto simp: updateStatus_def split: if_splits option.splits)

lemma boostIssue_issues:
  "boostIssue now i pid amt ru st = (st', rep) \<Longrightarrow>
     issues st' = issues st \<or>
     issues st' = updateOne i (\<lambda>d. d\<lparr>priority := JStr ''high'', isBoosted := True\<rparr>) (issues st)"
  by (auto simp: boostIssue_def Let_def split: if_splits option.splits)

lemma deleteIssue_issues:
  "deleteIssue now i ru st = (st', rep) \<Longrightarrow>
     issues st' = issues st \<or> issues st' = deleteOne i (issues st)"
  by (auto simp: deleteIssue_def removeIssue_def split: if_splits option.splits)

lemma setPriority_issues:
  "setPriority now i prio ru st = (st', rep) \<Longrightarrow>
     issues st' = issues st \<or>
     (\<exists>p. issues st' = updateOne i (\<lambda>d. d\<lparr>priority := JStr p\<rparr>) (issues st))"
  by (auto simp: setPriority_def split: if_splits option.splits)

lemma getRole_issues: "getRole target ru st = (st', rep) \<Longrightarrow> issues st' = issues st"
  by (auto simp: getRole_def split: if_splits)

lemma updateMembership_issues:
  "updateMembership target sn ru st = (st', rep) \<Longrightarrow> issues st' = issues st"
  by (auto simp: updateMembership_def Let_def split: if_splits option.splits)

lemma editIssue_timeline: "editIssue i body ru st = (st', rep) \<Longrightarrow> timeline st' = timeline st"
  by (auto simp: editIssue_def split: if_splits option.splits)

text \<open>
  What a request other than an edit does to the issues: nothing, an update that keeps
  ids and reporters, an insert at the end, or the removal of a document.
\<close>

text \<open>
  What a request other than an edit does to the issues: nothing, an update that keeps
  ids and reporters, an insert at the end, or the removal of a document.
\<close>

lemma handle_issues:
  assumes "handle now cred r st = (st', rep)" and "\<not> isEdit r"
  shows "issues st' = issues st \<or>
         (\<exists>k f. (\<forall>d. iid (f d) = iid d \<and> reporterEmail (f d) = reporterEmail d) \<and>
                 issues st' = updateOne k f (issues st)) \<or>
         (\<exists>x. issues st' = issues st @ [x]) \<or>
         (\<exists>k. issues st' = deleteOne k (issues st))"
proof (cases r)
  case (PostIssue newId body)
  with assms(1) have "route now cred [checkBlocked] (createIssue now newId body) st = (st', rep)"
    by (simp add: postIssue_def)
  from route_issues [OF this] consider "issues st' = issues st"
    | x where "issues st' = issues st @ [x]"
    by (auto dest: createIssue_issues)
  then show ?thesis by cases blast+
next
  case (PatchAssign i se)
  with assms(1) have "route now cred [requireRole ''admin''] (assignIssue now i se) st = (st', rep)"
    by (simp add: patchAssign_def)
  from route_issues [OF this] consider "issues st' = issues st"
    | e where "issues st' = updateOne i (\<lambda>d. d\<lparr>assignedStaff := Some e, status := JStr ''in-progress'',
                                            assignedAt := Some now\<rparr>) (issues st)"
    by (auto dest: assignIssue_issues)
  then show ?thesis
  proof cases
    case 1
    then show ?thesis by simp
  next
    case 2
    let ?f = "\<lambda>d. d\<lparr>assignedStaff := Some e, status := JStr ''in-progress'', assignedAt := Some now\<rparr>"
    have "\<exists>k f. (\<forall>d. iid (f d) = iid d \<and> reporterEmail (f d) = reporterEmail d) \<and>
            issues st' = updateOne k f (issues st)"
      by (rule exI [of _ i], rule exI [of _ ?f]) (simp add: 2)
    then show ?thesis by blast
  qed
next
  case (PatchUpvote i)
  with assms(1) have "route now cred [] (upvoteIssue i) st = (st', rep)"
    by (simp add: patchUpvote_def)
  from route_issues [OF this] consider "issues st' = issues st"
    | e where "issues st' = updateOne i (upvoted e) (issues st)"
    by (auto dest: upvoteIssue_issues)
  then show ?thesis
  proof cases
    case 1
    then show ?thesis by simp
  next
    case 2
    let ?f = "upvoted e"
    have "\<exists>k f. (\<forall>d. iid (f d) = iid d \<and> reporterEmail (f d) = reporterEmail d) \<and>
            issues st' = updateOne k f (issues st)"
      by (rule exI [of _ i], rule exI [of _ ?f]) (simp add: 2 upvoted_keeps)
    then show ?thesis by blast
  qed
next
  case (PatchStatus i sn nt)
  with assms(1) have "route now cred [] (updateStatus now i sn nt) st = (st', rep)"
    by (simp add: patchIssueStatus_def)
  from route_issues [OF this] consider "issues st' = issues st"
    | s where "issues st' = updateOne i (\<lambda>d. d\<lparr>status := JStr s\<rparr>) (issues st)"
    by (auto dest: updateStatus_issues)
  then show ?thesis
  proof cases
    case 1
    then show ?thesis by simp
  next
    case 2
    let ?f = "\<lambda>d. d\<lparr>status := JStr s\<rparr>"
    have "\<exists>k f. (\<forall>d. iid (f d) = iid d \<and> reporterEmail (f d) = reporterEmail d) \<and>
            issues st' = updateOne k f (issues st)"
      by (rule exI [of _ i], rule exI [of _ ?f]) (simp add: 2)
    then show ?thesis by blast
  qed
next
  case (PostBoost i pid amt)
  with assms(1) have "route now cred [checkBlocked] (boostIssue now i pid amt) st = (st', rep)"
    by (simp add: postBoost_def)
  from route_issues [OF this] consider "issues st' = issues st"
    | "issues st' = updateOne i (\<lambda>d. d\<lparr>priority := JStr ''high'', isBoosted := True\<rparr>) (issues st)"
    by (auto dest: boostIssue_issues)
  then show ?thesis
  proof cases
    case 1
    then show ?thesis by simp
  next
    case 2
    let ?f = "\<lambda>d. d\<lparr>priority := JStr ''high'', isBoosted := True\<rparr>"
    have "\<exists>k f. (\<forall>d. iid (f d) = iid d \<and> reporterEmail (f d) = reporterEmail d) \<and>
            issues st' = updateOne k f (issues st)"
      by (rule exI [of _ i], rule exI [of _ ?f]) (simp add: 2)
    then show ?thesis by blast
  qed
next
  case (PatchEdit i body)
  with assms(2) show ?thesis by simp
next
  case (DeleteIssue i)
  with assms(1) have "route now cred [] (deleteIssue now i) st = (st', rep)"
    by (simp add: deleteIssueRoute_def)
  from route_issues [OF this] consider "issues st' = issues st"
    | "issues st' = deleteOne i (issues st)"
    by (auto dest: deleteIssue_issues)
  then show ?thesis by cases blast+
next
  case (PatchPriority i prio)
  with assms(1) have "route now cred [requireRole ''admin''] (setPriority now i prio) st = (st', rep)"
    by (simp add: patchPriority_def)
  from route_issues [OF this] consider "issues st' = issues st"
    | p where "issues st' = updateOne i (\<lambda>d. d\<lparr>priority := JStr p\<rparr>) (issues st)"
    by (auto dest: setPriority_issues)
  then show ?thesis
  proof cases
    case 1
    then show ?thesis by simp
  next
    case 2
    let ?f = "\<lambda>d. d\<lparr>priority := JStr p\<rparr>"
    have "\<exists>k f. (\<forall>d. iid (f d) = iid d \<and> reporterEmail (f d) = reporterEmail d) \<and>
            issues st' = updateOne k f (issues st)"
      by (rule exI [of _ i], rule exI [of _ ?f]) (simp add: 2)
    then show ?thesis by blast
  qed
next
  case (GetUserRole target)
  with assms(1) have "route now cred [] (getRole target) st = (st', rep)"
    by (simp add: getUserRole_def)
  from route_issues [OF this] have "issues st' = issues st"
    by (auto dest: getRole_issues)
  then show ?thesis by simp
next
  case (PatchMembership target sn)
  with assms(1) have "route now cred [] (updateMembership target sn) st = (st', rep)"
    by (simp add: patchMembership_def)
  from route_issues [OF this] have "issues st' = issues st"
    by (auto dest: updateMembership_issues)
  then show ?thesis by simp
qed

lemma deleteOne_keeps_reporter:
  assumes "distinct (map iid xs)" and "findIssue j xs = Some y"
    and "findIssue j (deleteOne i xs) = Some y'"
  shows "y' = y"
proof (cases "j = i")
  case True
  with assms(1) have "findIssue j (deleteOne i xs) = None"
    by (simp add: findIssue_deleteOne_distinct)
  with assms(3) show ?thesis by simp
next
  case False
  then have "findIssue j (deleteOne i xs) = findIssue j xs"
    by (rule findIssue_deleteOne_other)
  with assms(2,3) show ?thesis by simp
qed

text \<open>
  C8, as the code has it. Every edit request by a caller whose e-mail differs from the
  issue's \<open>reporterEmail\<close> (an admin included) is answered 403 and changes no issue;
  no request other than an edit changes the \<open>reporterEmail\<close> of an issue (ids being
  unique, as the store keeps them); and a successful edit writes no timeline entry.
  The one operation that can change \<open>reporterEmail\<close> is the reporter's own edit,
  which stores the body as sent.
\<close>

theorem reporter_email_rules:
  "(\<forall>ru st1 x. verifyToken now cred st = Inr (ru, st1) \<and> isValidObjectId i \<and>
       findIssue i (issues st) = Some x \<and> a_email ru \<noteq> reporterEmail x \<longrightarrow>
     patchEdit now cred i body st = (st1, (403, Message ''Not your issue'')) \<and>
     issues st1 = issues st) \<and>
   (\<forall>r st' rep j y y'. \<not> isEdit r \<and> distinct (map iid (issues st)) \<and>
       handle now cred r st = (st', rep) \<and>
       findIssue j (issues st) = Some y \<and> findIssue j (issues st') = Some y' \<longrightarrow>
     reporterEmail y' = reporterEmail y) \<and>
   (\<forall>st' p. patchEdit now cred i body st = (st', (200, p)) \<longrightarrow> timeline st' = timeline st)"
proof (intro conjI allI impI)
  fix ru st1 x
  assume a: "verifyToken now cred st = Inr (ru, st1) \<and> isValidObjectId i \<and>
       findIssue i (issues st) = Some x \<and> a_email ru \<noteq> reporterEmail x"
  then have v: "verifyToken now cred st = Inr (ru, st1)" by simp
  then have i: "issues st1 = issues st" by (rule verifyToken_rest)
  then show "issues st1 = issues st" .
  from a i show "patchEdit now cred i body st = (st1, (403, Message ''Not your issue''))"
    by (auto simp: patchEdit_def route_authed editIssue_def)
next
  fix r st' rep j y y'
  assume a: "\<not> isEdit r \<and> distinct (map iid (issues st)) \<and>
       handle now cred r st = (st', rep) \<and>
       findIssue j (issues st) = Some y \<and> findIssue j (issues st') = Some y'"
  then have h: "handle now cred r st = (st', rep)" and e: "\<not> isEdit r"
    and d: "distinct (map iid (issues st))"
    and y: "findIssue j (issues st) = Some y" and y': "findIssue j (issues st') = Some y'"
    by simp_all
  from handle_issues [OF h e] consider
      (same) "issues st' = issues st"
    | (upd) k f where "\<forall>d. iid (f d) = iid d \<and> reporterEmail (f d) = reporterEmail d"
        "issues st' = updateOne k f (issues st)"
    | (ins) x where "issues st' = issues st @ [x]"
    | (del) k where "issues st' = deleteOne k (issues st)"
    by blast
  then show "reporterEmail y' = reporterEmail y"
  proof cases
    case same
    with y y' show ?thesis by simp
  next
    case upd
    from y y' upd(2) have "findIssue j (updateOne k f (issues st)) = Some y'" by simp
    with y show ?thesis using upd(1) by (auto intro: updateOne_keeps_reporter)
  next
    case ins
    with y have "findIssue j (issues st') = Some y" by (simp add: findIssue_append)
    with y' show ?thesis by simp
  next
    case del
    with d y y' have "y' = y" by (auto intro: deleteOne_keeps_reporter)
    then show ?thesis by simp
  qed
next
  fix st' p
  assume a: "patchEdit now cred i body st = (st', (200, p))"
  show "timeline st' = timeline st"
  proof (cases "verifyToken now cred st")
    case (Inl r)
    with a show ?thesis by (simp add: patchEdit_def route_def)
  next
    case (Inr q)
    obtain ru st1 where q: "q = (ru, st1)" by (cases q)
    with Inr have v: "verifyToken now cred st = Inr (ru, st1)" by simp
    then have t: "timeline st1 = timeline st" by (rule verifyToken_rest)
    from a v have "editIssue i body ru st1 = (st', (200, p))"
      by (simp add: patchEdit_def route_authed)
    then have "timeline st' = timeline st1" by (rule editIssue_timeline)
    with t show ?thesis by simp
  qed
qed

text \<open>
  The admin cannot edit \<open>cara\<close>'s issue; the admin's status update leaves her the
  reporter; her own edit of the title writes no timeline entry.
\<close>

theorem reporter_email_rules_witness:
  "(let x = mkIssue idA ''cara'' ''pending'' None; w = world [x];
        retitle = emptyBody\<lparr>b_title := Some (JStr ''Deep pothole'')\<rparr>
    in isValidObjectId idA \<and> findIssue idA (issues w) = Some x \<and> distinct (map iid (issues w)) \<and>
       patchEdit 7 (tok ''ada'') idA retitle w = (w, (403, Message ''Not your issue'')) \<and>
       (\<exists>st' rep y'. handle 7 (tok ''ada'') (PatchStatus idA (Some ''closed'') None) w = (st', rep) \<and>
          findIssue idA (issues st') = Some y' \<and> status y' = JStr ''closed'' \<and>
          reporterEmail y' = reporterEmail x) \<and>
       (\<exists>st' p. patchEdit 7 (tok ''cara'') idA retitle w = (st', (200, p)) \<and>
          timeline st' = timeline w))"
proof -
  let ?x = "mkIssue idA ''cara'' ''pending'' None"
  let ?w = "world [?x]"
  let ?retitle = "emptyBody\<lparr>b_title := Some (JStr ''Deep pothole'')\<rparr>"
  let ?ada = "\<lparr>a_email = ''ada'', a_uid = ''uid-ada'', a_role = ''admin'', a_isBlocked = False,
            a_isPremium = False\<rparr>"
  let ?w' = "?w\<lparr>issues := [?x\<lparr>status := JStr ''closed''\<rparr>],
                 timeline := [\<lparr>t_issueId = idA, t_status = JStr ''closed'',
                               t_message = ''Status changed to closed'', t_updatedBy = ''ada'',
                               t_time = 7\<rparr>]\<rparr>"
  let ?w'' = "?w\<lparr>issues := [?x\<lparr>title := Some (JStr ''Deep pothole'')\<rparr>]\<rparr>"
  have va: "verifyToken 7 (tok ''ada'') ?w = Inr (?ada, ?w)" by (rule verify_ada)
  have c: "findIssue idA (issues ?w) = Some ?x"
    by (simp add: world_def findIssue_def mkIssue_def)
  have d: "distinct (map iid (issues ?w))" by (simp add: world_def)
  have n: "a_email ?ada \<noteq> reporterEmail ?x" by (simp add: mkIssue_def)
  have h: "handle 7 (tok ''ada'') (PatchStatus idA (Some ''closed'') None) ?w = (?w', (200, Modified 1))"
    unfolding handle.simps patchIssueStatus_def route_authed [OF verify_ada]
    by (simp add: updateStatus_def isValid_idA findIssue_def findUser_def world_def people_def
        mkUser_def mkIssue_def modifiedCount_def orS_def)
  have c': "findIssue idA (issues ?w') = Some (?x\<lparr>status := JStr ''closed''\<rparr>)"
    by (simp add: findIssue_def mkIssue_def)
  have e: "patchEdit 7 (tok ''cara'') idA ?retitle ?w = (?w'', (200, Modified 1))"
    unfolding patchEdit_def route_authed [OF verify_cara]
    by (simp add: editIssue_def isValid_idA findIssue_def world_def mkIssue_def setBody_def
        emptyBody_def modifiedCount_def)
  have ne: "\<not> isEdit (PatchStatus idA (Some ''closed'') None)" by simp
  note A = reporter_email_rules [of 7 "tok ''ada''" ?w idA ?retitle]
  note B = reporter_email_rules [of 7 "tok ''cara''" ?w idA ?retitle]
  from A va isValid_idA c n
  have 1: "patchEdit 7 (tok ''ada'') idA ?retitle ?w = (?w, (403, Message ''Not your issue''))"
    by blast
  from A ne d h c c'
  have 2: "reporterEmail (?x\<lparr>status := JStr ''closed''\<rparr>) = reporterEmail ?x"
    by blast
  from B e have 3: "timeline ?w'' = timeline ?w" by blast
  have 4: "status (?x\<lparr>status := JStr ''closed''\<rparr>) = JStr ''closed''" by simp
  from 1 2 3 4 h c c' d e isValid_idA show ?thesis unfolding Let_def by blast
qed

text \<open>
  The claim that no operation but an edit by somebody else changes \<open>reporterEmail\<close>
  fails: \<open>cara\<close> edits her own issue with a body that carries
  \<open>reporterEmail = zed\<close>, and the issue is \<open>zed\<close>'s afterwards.
\<close>

theorem reporter_edit_changes_reporter:
  "(let x = mkIssue idA ''cara'' ''pending'' None; w = world [x];
        res = patchEdit 7 (tok ''cara'') idA (emptyBody\<lparr>b_reporterEmail := Some ''zed''\<rparr>) w
    in findIssue idA (issues w) = Some x \<and> reporterEmail x = ''cara'' \<and>
       snd res = (200, Modified 1) \<and>
       findIssue idA (issues (fst res)) = Some (x\<lparr>reporterEmail := ''zed''\<rparr>) \<and>
       reporterEmail (x\<lparr>reporterEmail := ''zed''\<rparr>) \<noteq> reporterEmail x)"
  unfolding Let_def patchEdit_def route_authed [OF verify_cara]
  by (simp add: editIssue_def isValid_idA findIssue_def world_def mkIssue_def setBody_def
      emptyBody_def modifiedCount_def)

subsection \<open>Status updates\<close>

text \<open>
  What the status route does with a request that carries a status, on an existing
  issue: a citizen is refused; a staff member who is not the assignee is refused; the
  assignee's request for a status that is not the next state of the flow is answered
  with the invalid-transition reply that names the allowed next states, provided the
  current status is a string and not the name of an inherited property; an admin's
  request, and the assignee's request for the next state, set the status and write one
  timeline entry whose message is the note, or \<open>Status changed to\<close> and the
  status without one.
\<close>

lemma status_update_rules:
  assumes "verifyToken now cred st = Inr (ru, st1)"
    and "isValidObjectId i" and "findIssue i (issues st) = Some x" and "s \<noteq> []"
  shows "(a_role ru = ''citizen'' \<longrightarrow>
            patchIssueStatus now cred i (Some s) nt st =
              (st1, (403, Message ''Forbidden: Citizens cannot update status''))) \<and>
         (a_role ru = ''staff'' \<and> assignedStaff x \<noteq> Some (a_email ru) \<longrightarrow>
            patchIssueStatus now cred i (Some s) nt st =
              (st1, (403, Message ''Forbidden: Not assigned to you''))) \<and>
         (\<forall>cur. a_role ru = ''staff'' \<and> assignedStaff x = Some (a_email ru) \<and>
            status x = JStr cur \<and> cur \<notin> set objectPrototypeKeys \<and>
            s \<notin> set (case map_of VALID_STATUS_FLOW cur of None \<Rightarrow> [] | Some a \<Rightarrow> a) \<longrightarrow>
            patchIssueStatus now cred i (Some s) nt st =
              (st1, invalidTransition (JStr cur)
                      (case map_of VALID_STATUS_FLOW cur of None \<Rightarrow> [] | Some a \<Rightarrow> a))) \<and>
         (a_role ru = ''admin'' \<or>
          (\<exists>cur. a_role ru = ''staff'' \<and> assignedStaff x = Some (a_email ru) \<and>
             status x = JStr cur \<and> map_of VALID_STATUS_FLOW cur = Some [s]) \<longrightarrow>
            (\<exists>st' n. patchIssueStatus now cred i (Some s) nt st = (st', (200, Modified n)) \<and>
               findIssue i (issues st') = Some (x\<lparr>status := JStr s\<rparr>) \<and>
               timeline st' = timeline st @
                 [\<lparr>t_issueId = i, t_status = JStr s,
                   t_message = (case nt of None \<Rightarrow> ''Status changed to '' @ s
                                | Some m \<Rightarrow> if m = [] then ''Status changed to '' @ s else m),
                   t_updatedBy = a_email ru, t_time = now\<rparr>])) \<and>
         issues st1 = issues st"
proof -
  have i: "issues st1 = issues st" "timeline st1 = timeline st"
    using assms(1) by (rule verifyToken_rest)+
  from verifyToken_user [OF assms(1)] obtain usr where
    u: "findUser (a_email ru) (users st1) = Some usr" "role usr = a_role ru" by blast
  have r: "patchIssueStatus now cred i (Some s) nt st = updateStatus now i (Some s) nt ru st1"
    using assms(1) by (simp add: patchIssueStatus_def route_authed)
  have upd: "findIssue i (updateOne i (\<lambda>d. d\<lparr>status := JStr s\<rparr>) (issues st)) =
               Some (x\<lparr>status := JStr s\<rparr>)"
    using assms(3) by (simp add: findIssue_updateOne_same)
  have 1: "a_role ru = ''citizen'' \<longrightarrow>
            updateStatus now i (Some s) nt ru st1 =
              (st1, (403, Message ''Forbidden: Citizens cannot update status''))"
    using assms(2-4) i u by (simp add: updateStatus_def)
  have 2: "a_role ru = ''staff'' \<and> assignedStaff x \<noteq> Some (a_email ru) \<longrightarrow>
            updateStatus now i (Some s) nt ru st1 =
              (st1, (403, Message ''Forbidden: Not assigned to you''))"
    using assms(2-4) i u by (simp add: updateStatus_def)
  have 3: "\<forall>cur. a_role ru = ''staff'' \<and> assignedStaff x = Some (a_email ru) \<and>
            status x = JStr cur \<and> cur \<notin> set objectPrototypeKeys \<and>
            s \<notin> set (case map_of VALID_STATUS_FLOW cur of None \<Rightarrow> [] | Some a \<Rightarrow> a) \<longrightarrow>
            updateStatus now i (Some s) nt ru st1 =
              (st1, invalidTransition (JStr cur)
                      (case map_of VALID_STATUS_FLOW cur of None \<Rightarrow> [] | Some a \<Rightarrow> a))"
    using assms(2-4) i u
    by (auto simp: updateStatus_def validateFlow_def allowedFromStatus_def allowedFrom_def
        split: option.splits)
  have 4: "a_role ru = ''admin'' \<or>
          (\<exists>cur. a_role ru = ''staff'' \<and> assignedStaff x = Some (a_email ru) \<and>
             status x = JStr cur \<and> map_of VALID_STATUS_FLOW cur = Some [s]) \<longrightarrow>
            (\<exists>st' n. updateStatus now i (Some s) nt ru st1 = (st', (200, Modified n)) \<and>
               findIssue i (issues st') = Some (x\<lparr>status := JStr s\<rparr>) \<and>
               timeline st' = timeline st @
                 [\<lparr>t_issueId = i, t_status = JStr s,
                   t_message = (case nt of None \<Rightarrow> ''Status changed to '' @ s
                                | Some m \<Rightarrow> if m = [] then ''Status changed to '' @ s else m),
                   t_updatedBy = a_email ru, t_time = now\<rparr>])"
    using assms(2-4) i u upd
    by (auto simp: updateStatus_def validateFlow_def allowedFromStatus_def allowedFrom_def
        orS_def split: option.splits)
  from 1 2 3 4 i(1) show ?thesis unfolding r by blast
qed

text \<open>
  C1 says that a staff member's request for a status that is not the allowed next
  state of the current status fails with the invalid-transition reply. The code misses
  one case: when the current status is the name of a property that every object
  inherits, \<open>VALID_STATUS_FLOW[issue.status]\<close> is that property, not an array, and
  \<open>allowed.includes\<close> throws. Here the admin sets the status \<open>constructor\<close> (an
  admin may set any status), and the assigned staff member's request for
  \<open>resolved\<close> is answered 500 with the exception's message, not with the
  invalid-transition reply; the status stays as it was.
\<close>

theorem status_update_inherited_key:
  "(let x = mkIssue idA ''cara'' ''in-progress'' (Some ''sam'');
        st1 = fst (patchIssueStatus 10 (tok ''ada'') idA (Some ''constructor'') None (world [x]))
    in snd (patchIssueStatus 10 (tok ''ada'') idA (Some ''constructor'') None (world [x])) =
         (200, Modified 1) \<and>
       findIssue idA (issues st1) = Some (x\<lparr>status := JStr ''constructor''\<rparr>) \<and>
       map_option role (findUser ''sam'' (users st1)) = Some ''staff'' \<and>
       patchIssueStatus 11 (tok ''sam'') idA (Some ''resolved'') None st1 =
         (st1, (500, Err (TypeError ''allowed.includes is not a function''))) \<and>
       patchIssueStatus 11 (tok ''sam'') idA (Some ''resolved'') None st1 \<noteq>
         (st1, invalidTransition (JStr ''constructor'') []))"
proof -
  let ?x = "mkIssue idA ''cara'' ''in-progress'' (Some ''sam'')"
  let ?w = "world [?x]"
  let ?xs = "[?x\<lparr>status := JStr ''constructor''\<rparr>]"
  let ?st1 = "world ?xs\<lparr>timeline := [\<lparr>t_issueId = idA, t_status = JStr ''constructor'',
                               t_message = ''Status changed to constructor'', t_updatedBy = ''ada'',
                               t_time = 10\<rparr>]\<rparr>"
  have a: "patchIssueStatus 10 (tok ''ada'') idA (Some ''constructor'') None ?w = (?st1, (200, Modified 1))"
    unfolding patchIssueStatus_def route_authed [OF verify_ada]
    by (simp add: updateStatus_def isValid_idA findIssue_def findUser_def world_def people_def
        mkUser_def mkIssue_def modifiedCount_def orS_def)
  have v: "verifyToken 11 (tok ''sam'') ?st1 =
     Inr (\<lparr>a_email = ''sam'', a_uid = ''uid-sam'', a_role = ''staff'', a_isBlocked = False,
            a_isPremium = False\<rparr>, ?st1)"
    using verify_sam [of 11 ?xs] by (rule verifyToken_again) (simp add: world_def)
  have b: "patchIssueStatus 11 (tok ''sam'') idA (Some ''resolved'') None ?st1 =
         (?st1, (500, Err (TypeError ''allowed.includes is not a function'')))"
    unfolding patchIssueStatus_def route_authed [OF v]
    by (simp add: updateStatus_def isValid_idA findIssue_def findUser_def world_def people_def
        mkUser_def mkIssue_def validateFlow_def allowedFromStatus_def allowedFrom_def
        VALID_STATUS_FLOW_def objectPrototypeKeys_def)
  have c: "findIssue idA (issues ?st1) = Some (?x\<lparr>status := JStr ''constructor''\<rparr>)"
    by (simp add: world_def findIssue_def mkIssue_def)
  have d: "map_option role (findUser ''sam'' (users ?st1)) = Some ''staff''"
    by (simp add: world_def findUser_def people_def mkUser_def)
  have e: "(?st1, (500, Err (TypeError ''allowed.includes is not a function''))) \<noteq>
           (?st1, invalidTransition (JStr ''constructor'') [])"
    by (simp add: invalidTransition_def)
  from a b c d e show ?thesis unfolding Let_def by simp
qed

end
